theory Spec2Isabelle
  imports Complex_Main
begin

section \<open>JavaScript values used by the service layer\<close>

text \<open>
  A JavaScript \<^verbatim>\<open>number\<close> as the service layer uses it: durations in milliseconds, attempt
  counts and process ids are integers; a division by zero and a failed \<^verbatim>\<open>parseInt\<close>
  produce the three special values. Fractions do not occur: every number is read from an
  integer configuration field or a decimal digit string, and the only division is under
  \<^verbatim>\<open>Math.floor\<close>.
\<close>

datatype jsnum = NaN | NegInf | PosInf | Num int

text \<open>Truthiness of a number: \<^verbatim>\<open>0\<close> and \<^verbatim>\<open>NaN\<close> are falsy.\<close>

fun truthy :: "jsnum \<Rightarrow> bool" where
  "truthy NaN = False"
| "truthy (Num n) = (n \<noteq> 0)"
| "truthy NegInf = True"
| "truthy PosInf = True"

text \<open>\<^verbatim>\<open>Math.floor(a / b)\<close> on integers \<open>a\<close>, \<open>b\<close>.\<close>

definition floor_div :: "int \<Rightarrow> int \<Rightarrow> jsnum" where
  "floor_div a b =
     (if b = 0 then (if a = 0 then NaN else if 0 < a then PosInf else NegInf)
      else Num (a div b))"

text \<open>\<^verbatim>\<open>a || b\<close> where \<open>a\<close> is an optional integer field: an absent field
  (\<^verbatim>\<open>undefined\<close>) and \<^verbatim>\<open>0\<close> are both falsy.\<close>

definition or_default :: "int option \<Rightarrow> jsnum \<Rightarrow> jsnum" where
  "or_default a b = (case a of None \<Rightarrow> b | Some n \<Rightarrow> if truthy (Num n) then Num n else b)"

text \<open>\<^verbatim>\<open>a < b\<close> for an integer \<open>a\<close>: every comparison with \<^verbatim>\<open>NaN\<close> is false.\<close>

fun js_less :: "int \<Rightarrow> jsnum \<Rightarrow> bool" where
  "js_less a NaN = False"
| "js_less a NegInf = False"
| "js_less a PosInf = True"
| "js_less a (Num b) = (a < b)"

subsection \<open>Strings: \<^verbatim>\<open>trim\<close> and \<^verbatim>\<open>parseInt(s, 10)\<close>\<close>

text \<open>
  Command output is a sequence of bytes; white space is the ASCII white space that
  \<^verbatim>\<open>pgrep\<close> and \<^verbatim>\<open>tasklist\<close> print. A digit string denotes its exact value (a
  \<^verbatim>\<open>number\<close> is exact up to \<open>2^53\<close>, far above any process id).
\<close>

definition is_space :: "char \<Rightarrow> bool" where
  "is_space c = (c = CHR '' '' \<or> c = CHR 0x09 \<or> c = CHR 0x0A \<or> c = CHR 0x0B
                 \<or> c = CHR 0x0C \<or> c = CHR 0x0D)"

definition is_digit :: "char \<Rightarrow> bool" where
  "is_digit c = (48 \<le> (of_char c :: nat) \<and> (of_char c :: nat) \<le> 57)"

definition digit_val :: "char \<Rightarrow> nat" where
  "digit_val c = (of_char c :: nat) - 48"

definition trim :: "string \<Rightarrow> string" where
  "trim s = rev (dropWhile is_space (rev (dropWhile is_space s)))"

definition digits_val :: "string \<Rightarrow> nat" where
  "digits_val ds = foldl (\<lambda>acc c. 10 * acc + digit_val c) 0 ds"

text \<open>
  \<^verbatim>\<open>parseInt(s, 10)\<close>: leading white space is skipped, one sign is read, then the longest
  run of decimal digits; what follows the digits is ignored; no digit at all gives
  \<^verbatim>\<open>NaN\<close>.
\<close>

definition parseInt :: "string \<Rightarrow> jsnum" where
  "parseInt s =
     (let s1 = dropWhile is_space s;
          neg = (case s1 of [] \<Rightarrow> False | c # _ \<Rightarrow> c = CHR ''-'');
          s2 = (case s1 of [] \<Rightarrow> [] | c # r \<Rightarrow> if c = CHR ''-'' \<or> c = CHR ''+'' then r else s1);
          ds = takeWhile is_digit s2
      in if ds = [] then NaN
         else Num (if neg then - int (digits_val ds) else int (digits_val ds)))"

section \<open>Service data model (\<^verbatim>\<open>service/types.ts\<close>, \<^verbatim>\<open>platform/types.ts\<close>)\<close>

datatype svc_state = S_starting | S_running | S_stopping | S_stopped | S_error

record ServiceStatus =
  running :: bool
  state :: svc_state
  pid :: "int option"
  lastError :: "string option"

record HealthCheckConfig =
  timeout :: int
  interval :: int
  maxAttempts :: "int option"

record ServiceConfig =
  command :: string
  port :: int
  healthCheck :: HealthCheckConfig

record ProcessInfo =
  proc_pid :: jsnum
  proc_name :: string

text \<open>
  \<^verbatim>\<open>Partial<ServiceStatus>\<close>: each key may be absent (\<open>None\<close>); a present key carries its
  value, which for the two optional fields may itself be \<^verbatim>\<open>undefined\<close>.
\<close>

record StatusUpdate =
  u_running :: "bool option"
  u_state :: "svc_state option"
  u_pid :: "int option option"
  u_lastError :: "string option option"

definition no_update :: StatusUpdate where
  "no_update = \<lparr>u_running = None, u_state = None, u_pid = None, u_lastError = None\<rparr>"

section \<open>Error taxonomy (\<^verbatim>\<open>service/errors.ts\<close>)\<close>

datatype proc_op = Op_start | Op_stop | Op_find

datatype platform = Unix | Windows

text \<open>
  \<open>SysError\<close> is a plain \<^verbatim>\<open>Error\<close> of the runtime (a rejected \<^verbatim>\<open>fetch\<close>, a failed
  \<^verbatim>\<open>exec\<close>, a \<^verbatim>\<open>SyntaxError\<close> of \<^verbatim>\<open>new RegExp\<close>). The other constructors are the
  classes of \<^verbatim>\<open>errors.ts\<close>, each extending \<^verbatim>\<open>BridgeError\<close> directly.
\<close>

datatype js_error =
    SysError string
  | ServiceError string ServiceStatus "js_error option"
  | ProcessError string string proc_op js_error
  | TimeoutError string string int
  | HealthCheckError string ServiceStatus int
  | PlatformError string platform string js_error

text \<open>\<^verbatim>\<open>error instanceof ProcessError\<close> and \<^verbatim>\<open>error instanceof ServiceError\<close>.\<close>

fun instanceof_ProcessError :: "js_error \<Rightarrow> bool" where
  "instanceof_ProcessError (ProcessError _ _ _ _) = True"
| "instanceof_ProcessError _ = False"

fun instanceof_ServiceError :: "js_error \<Rightarrow> bool" where
  "instanceof_ServiceError (ServiceError _ _ _) = True"
| "instanceof_ServiceError _ = False"

section \<open>The environment: network, shell, clock\<close>

text \<open>
  Everything outside the process is an oracle indexed by how many interactions of the
  same kind came before, so that a probe may answer differently each time it is asked.
  The world records the clock (\<^verbatim>\<open>Date.now()\<close>, in milliseconds) and the interactions
  performed so far, oldest first.
\<close>

datatype shell_cmd =
    Pgrep string        \<comment> \<open>\<^verbatim>\<open>pgrep ${name}\<close>\<close>
  | Kill jsnum          \<comment> \<open>\<^verbatim>\<open>kill ${pid}\<close>\<close>
  | Kill9 jsnum         \<comment> \<open>\<^verbatim>\<open>kill -9 ${pid}\<close>\<close>
  | Tasklist string     \<comment> \<open>\<^verbatim>\<open>tasklist /FI "IMAGENAME eq ${name}" /FO CSV /NH\<close>\<close>
  | Taskkill string     \<comment> \<open>\<^verbatim>\<open>taskkill /IM ${name}\<close>\<close>
  | TaskkillF string    \<comment> \<open>\<^verbatim>\<open>taskkill /F /IM ${name}\<close>\<close>

datatype event =
    E_fetch int string  \<comment> \<open>\<^verbatim>\<open>fetch\<close> of \<^verbatim>\<open>http://127.0.0.1:${port}${endpoint}\<close>\<close>
  | E_exec shell_cmd    \<comment> \<open>\<^verbatim>\<open>exec\<close> of a command whose completion is awaited\<close>
  | E_spawn string      \<comment> \<open>\<^verbatim>\<open>exec\<close> of the service command, detached\<close>
  | E_sleep int         \<comment> \<open>\<^verbatim>\<open>setTimeout(resolve, ms)\<close>, awaited\<close>

datatype fetch_outcome = Rejected | Resolved nat  \<comment> \<open>the response's HTTP status code\<close>

datatype exec_outcome = Exec_failed | Exec_ok string  \<comment> \<open>stdout\<close>

datatype re_result = Re_syntax_error | Re_no_match | Re_match string  \<comment> \<open>capture group 1\<close>

record env =
  fetch_result :: "nat \<Rightarrow> int \<Rightarrow> string \<Rightarrow> fetch_outcome"
  fetch_cost :: "nat \<Rightarrow> nat"
  exec_result :: "nat \<Rightarrow> shell_cmd \<Rightarrow> exec_outcome"
  spawn_ok :: "nat \<Rightarrow> string \<Rightarrow> bool"
  sleep_lag :: "nat \<Rightarrow> nat"
  regexp_engine :: "string \<Rightarrow> string \<Rightarrow> re_result"

record world =
  clock :: nat
  trace :: "event list"

fun is_fetch :: "event \<Rightarrow> bool" where
  "is_fetch (E_fetch _ _) = True"
| "is_fetch _ = False"

fun is_exec :: "event \<Rightarrow> bool" where
  "is_exec (E_exec _) = True"
| "is_exec _ = False"

fun is_spawn :: "event \<Rightarrow> bool" where
  "is_spawn (E_spawn _) = True"
| "is_spawn _ = False"

fun is_sleep :: "event \<Rightarrow> bool" where
  "is_sleep (E_sleep _) = True"
| "is_sleep _ = False"

text \<open>A process-control primitive: any shell command or spawn.\<close>

fun is_process_op :: "event \<Rightarrow> bool" where
  "is_process_op (E_exec _) = True"
| "is_process_op (E_spawn _) = True"
| "is_process_op _ = False"

definition n_fetch :: "world \<Rightarrow> nat" where
  "n_fetch w = length (filter is_fetch (trace w))"

definition n_exec :: "world \<Rightarrow> nat" where
  "n_exec w = length (filter is_exec (trace w))"

definition n_spawn :: "world \<Rightarrow> nat" where
  "n_spawn w = length (filter is_spawn (trace w))"

definition n_sleep :: "world \<Rightarrow> nat" where
  "n_sleep w = length (filter is_sleep (trace w))"

text \<open>The \<^verbatim>\<open>ok\<close> getter of a \<^verbatim>\<open>Response\<close>: the status is in the range 200 to 299.\<close>

definition response_ok :: "nat \<Rightarrow> bool" where
  "response_ok s = (200 \<le> s \<and> s \<le> 299)"

definition fetch :: "env \<Rightarrow> int \<Rightarrow> string \<Rightarrow> world \<Rightarrow> (js_error + nat) \<times> world" where
  "fetch e p ep w =
     ((case fetch_result e (n_fetch w) p ep of
         Rejected \<Rightarrow> Inl (SysError ''fetch failed'')
       | Resolved s \<Rightarrow> Inr s),
      w\<lparr>clock := clock w + fetch_cost e (n_fetch w), trace := trace w @ [E_fetch p ep]\<rparr>)"

definition execAsync :: "env \<Rightarrow> shell_cmd \<Rightarrow> world \<Rightarrow> (js_error + string) \<times> world" where
  "execAsync e c w =
     ((case exec_result e (n_exec w) c of
         Exec_failed \<Rightarrow> Inl (SysError ''Command failed'')
       | Exec_ok out \<Rightarrow> Inr out),
      w\<lparr>trace := trace w @ [E_exec c]\<rparr>)"

definition spawn :: "env \<Rightarrow> string \<Rightarrow> world \<Rightarrow> (js_error + unit) \<times> world" where
  "spawn e c w =
     ((if spawn_ok e (n_spawn w) c then Inr () else Inl (SysError ''spawn failed'')),
      w\<lparr>trace := trace w @ [E_spawn c]\<rparr>)"

text \<open>A timer fires no earlier than asked; a negative delay counts as zero.\<close>

definition sleep :: "env \<Rightarrow> int \<Rightarrow> world \<Rightarrow> world" where
  "sleep e ms w =
     w\<lparr>clock := clock w + nat ms + sleep_lag e (n_sleep w), trace := trace w @ [E_sleep ms]\<rparr>"

section \<open>Health probe and health wait (\<^verbatim>\<open>service/health.ts\<close>)\<close>

text \<open>A \<^verbatim>\<open>HealthChecker\<close> is any object with a \<^verbatim>\<open>check()\<close> method.\<close>

type_synonym checker = "world \<Rightarrow> (js_error + bool) \<times> world"

text \<open>
  \<^verbatim>\<open>ServiceHealthChecker.check\<close>: the \<^verbatim>\<open>try\<close> block awaits the fetch and returns
  \<^verbatim>\<open>response.ok\<close>; the \<^verbatim>\<open>catch\<close> block returns \<^verbatim>\<open>false\<close>.
\<close>

definition check :: "env \<Rightarrow> int \<Rightarrow> string \<Rightarrow> checker" where
  "check e p ep w =
     (case fetch e p ep w of
        (Inr s, w') \<Rightarrow> (Inr (response_ok s), w')
      | (Inl err, w') \<Rightarrow> (Inr False, w'))"

text \<open>The constructor's default endpoint.\<close>

definition default_endpoint :: string where
  "default_endpoint = ''/api/tags''"

definition createHealthChecker :: "env \<Rightarrow> int \<Rightarrow> checker" where
  "createHealthChecker e p = check e p default_endpoint"

text \<open>
  \<^verbatim>\<open>const maxAttempts = config.maxAttempts || Math.floor(config.timeout / config.interval)\<close>
\<close>

definition maxAttempts_of :: "HealthCheckConfig \<Rightarrow> jsnum" where
  "maxAttempts_of cfg = or_default (maxAttempts cfg) (floor_div (timeout cfg) (interval cfg))"

text \<open>
  The status-snapshot supplier \<^verbatim>\<open>currentStatus\<close> is a callback that may change the state
  \<open>'s\<close> of whoever supplies it (the manager passes its own \<^verbatim>\<open>getStatus\<close>).
\<close>

type_synonym 's supplier = "'s \<Rightarrow> world \<Rightarrow> (js_error + ServiceStatus) \<times> 's \<times> world"

text \<open>
  The \<^verbatim>\<open>while (attempts < maxAttempts)\<close> loop of \<^verbatim>\<open>waitForHealth\<close> together with the
  statements after it. \<open>start\<close> is the clock value read on entry. With \<open>maxAttempts\<close>
  infinite the loop need not end, so the result is optional: \<open>None\<close> stands for a call
  that never returns.
\<close>

partial_function (option) waitLoop ::
  "env \<Rightarrow> checker \<Rightarrow> HealthCheckConfig \<Rightarrow> 's supplier \<Rightarrow> nat \<Rightarrow> jsnum \<Rightarrow> int \<Rightarrow> 's \<Rightarrow> world
     \<Rightarrow> ((js_error + unit) \<times> 's \<times> world) option"
where
  "waitLoop e chk cfg currentStatus start maxA attempts s w =
     (if js_less attempts maxA then
        (case chk w of
           (Inl err, w1) \<Rightarrow> Some (Inl err, s, w1)
         | (Inr healthy, w1) \<Rightarrow>
             if healthy then Some (Inr (), s, w1)
             else if timeout cfg \<le> int (clock w1) - int start then
               (case currentStatus s w1 of
                  (Inl err, s2, w2) \<Rightarrow> Some (Inl err, s2, w2)
                | (Inr st, s2, w2) \<Rightarrow>
                    Some (Inl (TimeoutError ''Health check timed out'' ''health_check'' (timeout cfg)),
                          s2, w2))
             else waitLoop e chk cfg currentStatus start maxA (attempts + 1) s
                    (sleep e (interval cfg) w1))
      else
        (case currentStatus s w of
           (Inl err, s2, w2) \<Rightarrow> Some (Inl err, s2, w2)
         | (Inr st, s2, w2) \<Rightarrow>
             Some (Inl (HealthCheckError ''Health check failed after maximum attempts'' st attempts),
                   s2, w2)))"

definition waitForHealth ::
  "env \<Rightarrow> checker \<Rightarrow> HealthCheckConfig \<Rightarrow> 's supplier \<Rightarrow> 's \<Rightarrow> world
     \<Rightarrow> ((js_error + unit) \<times> 's \<times> world) option"
where
  "waitForHealth e chk cfg currentStatus s w =
     waitLoop e chk cfg currentStatus (clock w) (maxAttempts_of cfg) 0 s w"

section \<open>The base manager (\<^verbatim>\<open>service/base.ts\<close>)\<close>

text \<open>
  \<^verbatim>\<open>BaseServiceManager\<close>, which both platform managers import from
  \<^verbatim>\<open>service/base\<close>; its text is the unit \<^verbatim>\<open>unnamed/part_006\<close> of the sources.
\<close>

record manager =
  config :: ServiceConfig
  status :: ServiceStatus

text \<open>The constructor: \<^verbatim>\<open>status = { running: false, state: 'stopped' }\<close>.\<close>

definition initial_status :: ServiceStatus where
  "initial_status = \<lparr>running = False, state = S_stopped, pid = None, lastError = None\<rparr>"

definition new_manager :: "ServiceConfig \<Rightarrow> manager" where
  "new_manager c = \<lparr>config = c, status = initial_status\<rparr>"

definition checkHealth :: "env \<Rightarrow> manager \<Rightarrow> world \<Rightarrow> (js_error + bool) \<times> world" where
  "checkHealth e m w = createHealthChecker e (port (config m)) w"

text \<open>
  \<^verbatim>\<open>getStatus\<close> assigns \<^verbatim>\<open>running\<close> and \<^verbatim>\<open>state\<close> in place and returns a spread copy
  of the stored record.
\<close>

definition getStatus :: "env \<Rightarrow> manager supplier" where
  "getStatus e m w =
     (case checkHealth e m w of
        (Inl err, w') \<Rightarrow> (Inl err, m, w')
      | (Inr b, w') \<Rightarrow>
          (let m1 = m\<lparr>status := (status m)\<lparr>running := b\<rparr>\<rparr>;
               m2 = m1\<lparr>status := (status m1)\<lparr>state := (if running (status m1) then S_running
                                                        else S_stopped)\<rparr>\<rparr>
           in (Inr (status m2), m2, w')))"

text \<open>
  The manager's \<^verbatim>\<open>waitForHealth(checker)\<close> hands the module function a fresh configuration
  object holding \<^verbatim>\<open>timeout\<close> and \<^verbatim>\<open>interval\<close> only.
\<close>

definition mgr_waitForHealth ::
  "env \<Rightarrow> checker \<Rightarrow> manager \<Rightarrow> world \<Rightarrow> ((js_error + unit) \<times> manager \<times> world) option"
where
  "mgr_waitForHealth e chk m w =
     waitForHealth e chk
       \<lparr>timeout = timeout (healthCheck (config m)),
        interval = interval (healthCheck (config m)),
        maxAttempts = None\<rparr>
       (getStatus e) m w"

text \<open>\<^verbatim>\<open>{ ...this.status, ...update }\<close>: a key present in the update wins.\<close>

definition merge_status :: "ServiceStatus \<Rightarrow> StatusUpdate \<Rightarrow> ServiceStatus" where
  "merge_status st u =
     \<lparr>running = (case u_running u of None \<Rightarrow> running st | Some b \<Rightarrow> b),
      state = (case u_state u of None \<Rightarrow> state st | Some x \<Rightarrow> x),
      pid = (case u_pid u of None \<Rightarrow> pid st | Some x \<Rightarrow> x),
      lastError = (case u_lastError u of None \<Rightarrow> lastError st | Some x \<Rightarrow> x)\<rparr>"

definition updateStatus :: "manager \<Rightarrow> StatusUpdate \<Rightarrow> manager" where
  "updateStatus m u = m\<lparr>status := merge_status (status m) u\<rparr>"

section \<open>Process control, Unix (\<^verbatim>\<open>platform/unix/process.ts\<close>)\<close>

type_synonym 'a io = "world \<Rightarrow> (js_error + 'a) \<times> world"

text \<open>The \<^verbatim>\<open>try\<close> block of \<^verbatim>\<open>findProcess\<close>: a failing \<^verbatim>\<open>pgrep\<close> rejects.\<close>

definition findProcess_unix_try :: "env \<Rightarrow> string \<Rightarrow> ProcessInfo option io" where
  "findProcess_unix_try e name w =
     (case execAsync e (Pgrep name) w of
        (Inl err, w1) \<Rightarrow> (Inl err, w1)
      | (Inr stdout, w1) \<Rightarrow>
          (let p = parseInt (trim stdout)
           in (Inr (if truthy p then Some \<lparr>proc_pid = p, proc_name = name\<rparr> else None), w1)))"

text \<open>With its \<^verbatim>\<open>catch\<close> block, which returns \<^verbatim>\<open>null\<close>.\<close>

definition findProcess_unix :: "env \<Rightarrow> string \<Rightarrow> ProcessInfo option io" where
  "findProcess_unix e name w =
     (case findProcess_unix_try e name w of
        (Inl err, w1) \<Rightarrow> (Inr None, w1)
      | (Inr r, w1) \<Rightarrow> (Inr r, w1))"

definition startProcess_unix :: "env \<Rightarrow> string \<Rightarrow> unit io" where
  "startProcess_unix e cmd w = spawn e cmd w"

definition stopProcess_unix :: "env \<Rightarrow> string \<Rightarrow> unit io" where
  "stopProcess_unix e name w =
     (case findProcess_unix e name w of
        (Inl err, w1) \<Rightarrow> (Inl err, w1)
      | (Inr None, w1) \<Rightarrow> (Inr (), w1)
      | (Inr (Some p), w1) \<Rightarrow>
          (case execAsync e (Kill (proc_pid p)) w1 of
             (Inl err, w2) \<Rightarrow> (Inl err, w2)
           | (Inr out, w2) \<Rightarrow> (Inr (), sleep e 1000 w2)))"

definition forceStopProcess_unix :: "env \<Rightarrow> string \<Rightarrow> unit io" where
  "forceStopProcess_unix e name w =
     (case findProcess_unix e name w of
        (Inl err, w1) \<Rightarrow> (Inl err, w1)
      | (Inr None, w1) \<Rightarrow> (Inr (), w1)
      | (Inr (Some p), w1) \<Rightarrow>
          (case execAsync e (Kill9 (proc_pid p)) w1 of
             (Inl err, w2) \<Rightarrow> (Inl err, w2)
           | (Inr out, w2) \<Rightarrow> (Inr (), w2)))"

definition isProcessRunning_unix :: "env \<Rightarrow> string \<Rightarrow> bool io" where
  "isProcessRunning_unix e name w =
     (case findProcess_unix e name w of
        (Inl err, w1) \<Rightarrow> (Inl err, w1)
      | (Inr r, w1) \<Rightarrow> (Inr (r \<noteq> None), w1))"

section \<open>Process control, Windows (\<^verbatim>\<open>platform/windows/process.ts\<close>)\<close>

text \<open>
  \<^verbatim>\<open>stdout.match\<close> of a \<^verbatim>\<open>RegExp\<close> built from the template
  \<^verbatim>\<open>"${name}","([0-9]+)"\<close>. The process name is spliced into the pattern as
  regular-expression source. In a name whose only pattern character is the dot (as in
  \<^verbatim>\<open>ollama.exe\<close>) every character stands for itself and a dot for any character but a
  line break; the pattern is then that prefix, one or more digits and a double quote, and
  the leftmost match is computed here. For any other name the outcome (a syntax error
  included) is the regular-expression engine's, an oracle of the environment.
\<close>

definition dq :: char where
  "dq = CHR 0x22"

definition regexp_special :: "char \<Rightarrow> bool" where
  "regexp_special c = (c = CHR 0x5C \<or> c \<in> set ''^$*+?()[]{}|'')"

definition simple_name :: "string \<Rightarrow> bool" where
  "simple_name name = list_all (\<lambda>c. \<not> regexp_special c) name"

definition pat_char :: "char \<Rightarrow> char \<Rightarrow> bool" where
  "pat_char p c = (if p = CHR ''.'' then c \<noteq> CHR 0x0A \<and> c \<noteq> CHR 0x0D else c = p)"

text \<open>The pattern tried at the start of \<open>s\<close>: \<open>lit\<close>, digits, a double quote.\<close>

definition match_here :: "string \<Rightarrow> string \<Rightarrow> string option" where
  "match_here lit s =
     (if length lit \<le> length s \<and> list_all2 pat_char lit (take (length lit) s) then
        (let rest = drop (length lit) s;
             ds = takeWhile is_digit rest
         in if ds \<noteq> [] \<and> take 1 (dropWhile is_digit rest) = [dq] then Some ds else None)
      else None)"

fun field_search :: "string \<Rightarrow> string \<Rightarrow> re_result" where
  "field_search lit [] =
     (case match_here lit [] of Some g \<Rightarrow> Re_match g | None \<Rightarrow> Re_no_match)"
| "field_search lit (c # s) =
     (case match_here lit (c # s) of Some g \<Rightarrow> Re_match g | None \<Rightarrow> field_search lit s)"

definition pid_pattern :: "string \<Rightarrow> string" where
  "pid_pattern name = [dq] @ name @ [dq, CHR '','', dq] @ ''([0-9]+)'' @ [dq]"

definition regexp_match :: "env \<Rightarrow> string \<Rightarrow> string \<Rightarrow> re_result" where
  "regexp_match e name stdout =
     (if simple_name name then field_search ([dq] @ name @ [dq, CHR '','', dq]) stdout
      else regexp_engine e (pid_pattern name) stdout)"

definition findProcess_windows_try :: "env \<Rightarrow> string \<Rightarrow> ProcessInfo option io" where
  "findProcess_windows_try e name w =
     (case execAsync e (Tasklist name) w of
        (Inl err, w1) \<Rightarrow> (Inl err, w1)
      | (Inr stdout, w1) \<Rightarrow>
          (case regexp_match e name stdout of
             Re_syntax_error \<Rightarrow> (Inl (SysError ''Invalid regular expression''), w1)
           | Re_no_match \<Rightarrow> (Inr None, w1)
           | Re_match g \<Rightarrow>
               if g \<noteq> [] then (Inr (Some \<lparr>proc_pid = parseInt g, proc_name = name\<rparr>), w1)
               else (Inr None, w1)))"

definition findProcess_windows :: "env \<Rightarrow> string \<Rightarrow> ProcessInfo option io" where
  "findProcess_windows e name w =
     (case findProcess_windows_try e name w of
        (Inl err, w1) \<Rightarrow> (Inr None, w1)
      | (Inr r, w1) \<Rightarrow> (Inr r, w1))"

definition startProcess_windows :: "env \<Rightarrow> string \<Rightarrow> unit io" where
  "startProcess_windows e cmd w = spawn e cmd w"

definition forceStopProcess_windows :: "env \<Rightarrow> string \<Rightarrow> unit io" where
  "forceStopProcess_windows e name w =
     (case execAsync e (TaskkillF name) w of
        (Inl err, w1) \<Rightarrow> (Inl err, w1)
      | (Inr out, w1) \<Rightarrow> (Inr (), w1))"

text \<open>The \<^verbatim>\<open>catch\<close> block of \<^verbatim>\<open>stopProcess\<close> calls \<^verbatim>\<open>forceStopProcess\<close>.\<close>

definition stopProcess_windows :: "env \<Rightarrow> string \<Rightarrow> unit io" where
  "stopProcess_windows e name w =
     (case execAsync e (Taskkill name) w of
        (Inr out, w1) \<Rightarrow> (Inr (), sleep e 1000 w1)
      | (Inl err, w1) \<Rightarrow> forceStopProcess_windows e name w1)"

definition isProcessRunning_windows :: "env \<Rightarrow> string \<Rightarrow> bool io" where
  "isProcessRunning_windows e name w =
     (case findProcess_windows e name w of
        (Inl err, w1) \<Rightarrow> (Inl err, w1)
      | (Inr r, w1) \<Rightarrow> (Inr (r \<noteq> None), w1))"

section \<open>Platform managers (\<^verbatim>\<open>platform/unix/process.ts\<close>, \<^verbatim>\<open>platform/windows/service.ts\<close>)\<close>

text \<open>
  \<^verbatim>\<open>UnixServiceManager\<close> is the third unit of \<^verbatim>\<open>platform/unix/process.ts\<close> (from
  its line 129 on); \<^verbatim>\<open>WindowsServiceManager\<close> is \<^verbatim>\<open>platform/windows/service.ts\<close>.
\<close>

text \<open>
  The outer \<^verbatim>\<open>catch\<close> of every start and stop method: a \<^verbatim>\<open>ProcessError\<close> or
  \<^verbatim>\<open>ServiceError\<close> is thrown again as it is, anything else becomes the cause of a new
  \<^verbatim>\<open>PlatformError\<close>.
\<close>

definition platform_boundary :: "platform \<Rightarrow> string \<Rightarrow> string \<Rightarrow> js_error \<Rightarrow> js_error" where
  "platform_boundary pf msg opn err =
     (if instanceof_ProcessError err \<or> instanceof_ServiceError err then err
      else PlatformError msg pf opn err)"

definition set_state :: "svc_state \<Rightarrow> StatusUpdate" where
  "set_state x = no_update\<lparr>u_state := Some x\<rparr>"

definition set_stopped :: StatusUpdate where
  "set_stopped = no_update\<lparr>u_running := Some False, u_state := Some S_stopped\<rparr>"

subsection \<open>Unix\<close>

text \<open>The inner \<^verbatim>\<open>try\<close> of \<^verbatim>\<open>startService\<close> that stops an existing process.\<close>

definition stop_existing_unix :: "env \<Rightarrow> unit io" where
  "stop_existing_unix e w =
     (case isProcessRunning_unix e ''ollama'' w of
        (Inl err, w1) \<Rightarrow> (Inl err, w1)
      | (Inr r, w1) \<Rightarrow> if r then stopProcess_unix e ''ollama'' w1 else (Inr (), w1))"

definition startService_unix_try ::
  "env \<Rightarrow> manager \<Rightarrow> world \<Rightarrow> ((js_error + unit) \<times> manager \<times> world) option"
where
  "startService_unix_try e m w =
     (case checkHealth e m w of
        (Inl err, w1) \<Rightarrow> Some (Inl err, m, w1)
      | (Inr healthy, w1) \<Rightarrow>
          if healthy then Some (Inr (), m, w1)
          else
            (let m1 = updateStatus m (set_state S_starting) in
             case stop_existing_unix e w1 of
               (Inl err, w2) \<Rightarrow>
                 Some (Inl (ProcessError ''Failed to stop existing process'' ''ollama'' Op_stop err),
                       m1, w2)
             | (Inr u, w2) \<Rightarrow>
                 (case startProcess_unix e (command (config m1)) w2 of
                    (Inl err, w3) \<Rightarrow>
                      Some (Inl (ProcessError ''Failed to start process'' ''ollama'' Op_start err),
                            m1, w3)
                  | (Inr u, w3) \<Rightarrow>
                      mgr_waitForHealth e (createHealthChecker e (port (config m1))) m1 w3)))"

definition startService_unix ::
  "env \<Rightarrow> manager \<Rightarrow> world \<Rightarrow> ((js_error + unit) \<times> manager \<times> world) option"
where
  "startService_unix e m w =
     (case startService_unix_try e m w of
        None \<Rightarrow> None
      | Some (Inl err, m1, w1) \<Rightarrow>
          Some (Inl (platform_boundary Unix ''Failed to start service on Unix platform''
                       ''start'' err), m1, w1)
      | Some (Inr u, m1, w1) \<Rightarrow> Some (Inr u, m1, w1))"

definition stopService_unix_try :: "env \<Rightarrow> manager \<Rightarrow> world \<Rightarrow> (js_error + unit) \<times> manager \<times> world"
where
  "stopService_unix_try e m w =
     (let m1 = updateStatus m (set_state S_stopping) in
      case stopProcess_unix e ''ollama'' w of
        (Inr u, w1) \<Rightarrow> (Inr (), updateStatus m1 set_stopped, w1)
      | (Inl err, w1) \<Rightarrow>
          (Inl (ProcessError ''Failed to stop process'' ''ollama'' Op_stop err), m1, w1))"

definition stopService_unix :: "env \<Rightarrow> manager \<Rightarrow> world \<Rightarrow> (js_error + unit) \<times> manager \<times> world"
where
  "stopService_unix e m w =
     (case stopService_unix_try e m w of
        (Inl err, m1, w1) \<Rightarrow>
          (Inl (platform_boundary Unix ''Failed to stop service on Unix platform''
                  ''stop'' err), m1, w1)
      | (Inr u, m1, w1) \<Rightarrow> (Inr u, m1, w1))"

subsection \<open>Windows\<close>

definition stop_existing_windows :: "env \<Rightarrow> unit io" where
  "stop_existing_windows e w =
     (case isProcessRunning_windows e ''ollama.exe'' w of
        (Inl err, w1) \<Rightarrow> (Inl err, w1)
      | (Inr r, w1) \<Rightarrow> if r then stopProcess_windows e ''ollama.exe'' w1 else (Inr (), w1))"

definition startService_windows_try ::
  "env \<Rightarrow> manager \<Rightarrow> world \<Rightarrow> ((js_error + unit) \<times> manager \<times> world) option"
where
  "startService_windows_try e m w =
     (case checkHealth e m w of
        (Inl err, w1) \<Rightarrow> Some (Inl err, m, w1)
      | (Inr healthy, w1) \<Rightarrow>
          if healthy then Some (Inr (), m, w1)
          else
            (let m1 = updateStatus m (set_state S_starting) in
             case stop_existing_windows e w1 of
               (Inl err, w2) \<Rightarrow>
                 Some (Inl (ProcessError ''Failed to stop existing process'' ''ollama.exe'' Op_stop
                              err), m1, w2)
             | (Inr u, w2) \<Rightarrow>
                 (case startProcess_windows e (command (config m1)) w2 of
                    (Inl err, w3) \<Rightarrow>
                      Some (Inl (ProcessError ''Failed to start process'' ''ollama.exe'' Op_start
                                   err), m1, w3)
                  | (Inr u, w3) \<Rightarrow>
                      mgr_waitForHealth e (createHealthChecker e (port (config m1))) m1 w3)))"

definition startService_windows ::
  "env \<Rightarrow> manager \<Rightarrow> world \<Rightarrow> ((js_error + unit) \<times> manager \<times> world) option"
where
  "startService_windows e m w =
     (case startService_windows_try e m w of
        None \<Rightarrow> None
      | Some (Inl err, m1, w1) \<Rightarrow>
          Some (Inl (platform_boundary Windows ''Failed to start service on Windows platform''
                       ''start'' err), m1, w1)
      | Some (Inr u, m1, w1) \<Rightarrow> Some (Inr u, m1, w1))"

text \<open>
  The confirmation loop of \<^verbatim>\<open>stopService\<close>: at most five probes, one second apart, left
  at the first probe that fails.
\<close>

function stopPoll :: "env \<Rightarrow> manager \<Rightarrow> nat \<Rightarrow> unit io" where
  "stopPoll e m attempts w =
     (if attempts < 5 then
        (case checkHealth e m w of
           (Inl err, w1) \<Rightarrow> (Inl err, w1)
         | (Inr healthy, w1) \<Rightarrow>
             if \<not> healthy then (Inr (), w1)
             else stopPoll e m (attempts + 1) (sleep e 1000 w1))
      else (Inr (), w))"
  by pat_completeness auto
termination
  by (relation "measure (\<lambda>(e, m, attempts, w). 5 - attempts)") auto

text \<open>The inner \<^verbatim>\<open>try\<close> of \<^verbatim>\<open>stopService\<close>: graceful stop, then the confirmation loop.\<close>

definition stop_and_confirm_windows :: "env \<Rightarrow> manager \<Rightarrow> unit io" where
  "stop_and_confirm_windows e m w =
     (case stopProcess_windows e ''ollama.exe'' w of
        (Inl err, w1) \<Rightarrow> (Inl err, w1)
      | (Inr u, w1) \<Rightarrow> stopPoll e m 0 w1)"

definition stopService_windows_try ::
  "env \<Rightarrow> manager \<Rightarrow> world \<Rightarrow> (js_error + unit) \<times> manager \<times> world"
where
  "stopService_windows_try e m w =
     (case checkHealth e m w of
        (Inl err, w1) \<Rightarrow> (Inl err, m, w1)
      | (Inr healthy, w1) \<Rightarrow>
          if \<not> healthy then (Inr (), updateStatus m set_stopped, w1)
          else
            (let m1 = updateStatus m (set_state S_stopping) in
             case stop_and_confirm_windows e m1 w1 of
               (Inr u, w2) \<Rightarrow> (Inr (), updateStatus m1 set_stopped, w2)
             | (Inl err, w2) \<Rightarrow>
                 (case forceStopProcess_windows e ''ollama.exe'' w2 of
                    (Inr u, w3) \<Rightarrow> (Inr (), updateStatus m1 set_stopped, w3)
                  | (Inl forceError, w3) \<Rightarrow>
                      (Inl (ProcessError ''Failed to force stop process'' ''ollama.exe'' Op_stop
                              forceError), m1, w3))))"

definition stopService_windows ::
  "env \<Rightarrow> manager \<Rightarrow> world \<Rightarrow> (js_error + unit) \<times> manager \<times> world"
where
  "stopService_windows e m w =
     (case stopService_windows_try e m w of
        (Inl err, m1, w1) \<Rightarrow>
          (Inl (platform_boundary Windows ''Failed to stop service on Windows platform''
                  ''stop'' err), m1, w1)
      | (Inr u, m1, w1) \<Rightarrow> (Inr u, m1, w1))"

section \<open>Vocabulary of the statements\<close>

text \<open>What the \<open>k\<close>-th request answers when it is a health probe of the given address.\<close>

definition probe_answer :: "env \<Rightarrow> nat \<Rightarrow> int \<Rightarrow> string \<Rightarrow> bool" where
  "probe_answer e k p ep =
     (case fetch_result e k p ep of Rejected \<Rightarrow> False | Resolved s \<Rightarrow> response_ok s)"

text \<open>The world after one request, one awaited command, one spawn.\<close>

definition after_fetch :: "env \<Rightarrow> int \<Rightarrow> string \<Rightarrow> world \<Rightarrow> world" where
  "after_fetch e p ep w =
     w\<lparr>clock := clock w + fetch_cost e (n_fetch w), trace := trace w @ [E_fetch p ep]\<rparr>"

definition after_exec :: "shell_cmd \<Rightarrow> world \<Rightarrow> world" where
  "after_exec c w = w\<lparr>trace := trace w @ [E_exec c]\<rparr>"

definition after_spawn :: "string \<Rightarrow> world \<Rightarrow> world" where
  "after_spawn c w = w\<lparr>trace := trace w @ [E_spawn c]\<rparr>"

text \<open>
  The world after \<open>k\<close> failed rounds of the polling loop: each round is one probe
  followed by one sleep of \<^verbatim>\<open>config.interval\<close>.
\<close>

fun polls :: "env \<Rightarrow> checker \<Rightarrow> HealthCheckConfig \<Rightarrow> nat \<Rightarrow> world \<Rightarrow> world" where
  "polls e chk cfg 0 w = w"
| "polls e chk cfg (Suc k) w = polls e chk cfg k (sleep e (interval cfg) (snd (chk w)))"

text \<open>
  The statements of \<^verbatim>\<open>waitForHealth\<close> after its loop: the snapshot is fetched and the
  attempt-exhaustion error is thrown with it.
\<close>

definition exhausted ::
  "'s supplier \<Rightarrow> int \<Rightarrow> 's \<Rightarrow> world \<Rightarrow> ((js_error + unit) \<times> 's \<times> world) option" where
  "exhausted currentStatus attempts s w =
     (case currentStatus s w of
        (Inl err, s2, w2) \<Rightarrow> Some (Inl err, s2, w2)
      | (Inr st, s2, w2) \<Rightarrow>
          Some (Inl (HealthCheckError ''Health check failed after maximum attempts'' st attempts),
                s2, w2))"

text \<open>
  How a \<^verbatim>\<open>waitForHealth\<close> that returns can have ended: with success and the supplier's
  state untouched, with an error of the probe, with an error of the snapshot supplier, or,
  after a snapshot, with one of its own two errors.
\<close>

definition wait_outcome ::
  "checker \<Rightarrow> HealthCheckConfig \<Rightarrow> 's supplier \<Rightarrow> 's \<Rightarrow> (js_error + unit) \<times> 's \<times> world \<Rightarrow> bool"
where
  "wait_outcome chk cfg cs s y =
     (case y of (r, s', w') \<Rightarrow>
        (r = Inr () \<and> s' = s)
      \<or> (\<exists>w1 err. chk w1 = (Inl err, w') \<and> r = Inl err \<and> s' = s)
      \<or> (\<exists>w1 err. cs s w1 = (Inl err, s', w') \<and> r = Inl err)
      \<or> (\<exists>w1 st. cs s w1 = (Inr st, s', w')
           \<and> (r = Inl (TimeoutError ''Health check timed out'' ''health_check'' (timeout cfg))
              \<or> (\<exists>n. r = Inl (HealthCheckError ''Health check failed after maximum attempts''
                                 st n)))))"

text \<open>What the \<open>k\<close>-th command yields when it is the \<^verbatim>\<open>pgrep\<close> lookup of \<open>name\<close>.\<close>

definition lookup_unix :: "env \<Rightarrow> nat \<Rightarrow> string \<Rightarrow> ProcessInfo option" where
  "lookup_unix e k name =
     (case exec_result e k (Pgrep name) of
        Exec_failed \<Rightarrow> None
      | Exec_ok out \<Rightarrow>
          if truthy (parseInt (trim out))
          then Some \<lparr>proc_pid = parseInt (trim out), proc_name = name\<rparr> else None)"

text \<open>What the \<open>k\<close>-th command yields when it is the \<^verbatim>\<open>tasklist\<close> lookup of \<open>name\<close>.\<close>

definition lookup_windows :: "env \<Rightarrow> nat \<Rightarrow> string \<Rightarrow> ProcessInfo option" where
  "lookup_windows e k name =
     (case exec_result e k (Tasklist name) of
        Exec_failed \<Rightarrow> None
      | Exec_ok out \<Rightarrow>
          (case regexp_match e name out of
             Re_match g \<Rightarrow>
               if g \<noteq> [] then Some \<lparr>proc_pid = parseInt g, proc_name = name\<rparr> else None
           | Re_no_match \<Rightarrow> None
           | Re_syntax_error \<Rightarrow> None))"

text \<open>The manager after \<^verbatim>\<open>getStatus\<close> has stored the probe answer \<open>b\<close>.\<close>

definition refreshed :: "manager \<Rightarrow> bool \<Rightarrow> manager" where
  "refreshed m b =
     m\<lparr>status := (status m)\<lparr>running := b, state := (if b then S_running else S_stopped)\<rparr>\<rparr>"

text \<open>The invariant of the data model: \<^verbatim>\<open>running == true\<close> iff \<^verbatim>\<open>state == 'running'\<close>.\<close>

definition status_iff :: "ServiceStatus \<Rightarrow> bool" where
  "status_iff st = (running st = (state st = S_running))"

text \<open>The same, required only outside the two transitional states.\<close>

definition status_inv :: "ServiceStatus \<Rightarrow> bool" where
  "status_inv st = (state st = S_starting \<or> state st = S_stopping \<or> status_iff st)"

section \<open>Concrete configurations and environments\<close>

text \<open>Health-check configurations: timeout, interval, attempts.\<close>

definition cfg_5000_1000_3 :: HealthCheckConfig where
  "cfg_5000_1000_3 = \<lparr>timeout = 5000, interval = 1000, maxAttempts = Some 3\<rparr>"

definition cfg_zero :: HealthCheckConfig where
  "cfg_zero = \<lparr>timeout = 5000, interval = 1000, maxAttempts = Some 0\<rparr>"

definition cfg_2500_1000 :: HealthCheckConfig where
  "cfg_2500_1000 = \<lparr>timeout = 2500, interval = 1000, maxAttempts = None\<rparr>"

text \<open>
  An environment from a script: the answer of the \<open>k\<close>-th request, the outcome of the
  \<open>k\<close>-th command, whether the \<open>k\<close>-th spawn succeeds. Requests and timers take no
  extra time, and the regular-expression oracle finds nothing.
\<close>

definition env_of ::
  "(nat \<Rightarrow> fetch_outcome) \<Rightarrow> (nat \<Rightarrow> shell_cmd \<Rightarrow> exec_outcome) \<Rightarrow> (nat \<Rightarrow> bool) \<Rightarrow> env" where
  "env_of f x sp =
     \<lparr>fetch_result = (\<lambda>k p ep. f k), fetch_cost = (\<lambda>k. 0), exec_result = x,
      spawn_ok = (\<lambda>k c. sp k), sleep_lag = (\<lambda>k. 0), regexp_engine = (\<lambda>p s. Re_no_match)\<rparr>"

text \<open>The service is down, no process is found and no command succeeds.\<close>

definition env_down :: env where
  "env_down = env_of (\<lambda>k. Rejected) (\<lambda>k c. Exec_failed) (\<lambda>k. True)"

text \<open>The service is down at the first probe and answers 200 from the second on.\<close>

definition env_comes_up :: env where
  "env_comes_up =
     env_of (\<lambda>k. if k = 0 then Rejected else Resolved 200) (\<lambda>k c. Exec_failed) (\<lambda>k. True)"

text \<open>The initial world and a service configuration.\<close>

definition w0 :: world where
  "w0 = \<lparr>clock = 0, trace = []\<rparr>"

definition cfg0 :: ServiceConfig where
  "cfg0 = \<lparr>command = ''ollama serve'', port = 11434,
           healthCheck = \<lparr>timeout = 5000, interval = 1000, maxAttempts = None\<rparr>\<rparr>"

text \<open>
  The service configuration of the repository's integration test
  (\<^verbatim>\<open>__tests__/integration.test.ts\<close>).
\<close>

definition cfg_test :: ServiceConfig where
  "cfg_test = \<lparr>command = ''ollama serve'', port = 11434,
               healthCheck = \<lparr>timeout = 5000, interval = 500, maxAttempts = None\<rparr>\<rparr>"

text \<open>The service answers every probe with 200; no command succeeds.\<close>

definition env_up :: env where
  "env_up = env_of (\<lambda>k. Resolved 200) (\<lambda>k c. Exec_failed) (\<lambda>k. True)"

text \<open>A line of \<^verbatim>\<open>tasklist /FO CSV /NH\<close> for the idle process, whose pid is 0.\<close>

definition idle_row :: string where
  "idle_row = [dq] @ ''System Idle Process'' @ [dq, CHR '','', dq] @ ''0'' @ [dq, CHR '','', dq]
               @ ''Services'' @ [dq, CHR '','', dq] @ ''0'' @ [dq, CHR '','', dq] @ ''8 K''
               @ [dq]"

definition env_idle :: env where
  "env_idle = env_of (\<lambda>k. Rejected) (\<lambda>k c. Exec_ok idle_row) (\<lambda>k. True)"

text \<open>A line of \<^verbatim>\<open>tasklist /FO CSV /NH\<close> for the service, with pid 4242.\<close>

definition found_row :: string where
  "found_row = [dq] @ ''ollama.exe'' @ [dq, CHR '','', dq] @ ''4242'' @ [dq, CHR '','', dq]
               @ ''Console'' @ [dq, CHR '','', dq] @ ''1'' @ [dq, CHR '','', dq] @ ''50,000 K''
               @ [dq]"

text \<open>
  The service is down, but a process of its name is found (pid 4242) and no command
  other than the lookup succeeds.
\<close>

definition env_found :: env where
  "env_found =
     env_of (\<lambda>k. Rejected)
       (\<lambda>k c. case c of Pgrep n \<Rightarrow> Exec_ok ''4242'' | Tasklist n \<Rightarrow> Exec_ok found_row
               | _ \<Rightarrow> Exec_failed)
       (\<lambda>k. True)"

text \<open>The service answers every probe; a process is found; every other command fails.\<close>

definition env_unkillable :: env where
  "env_unkillable =
     env_of (\<lambda>k. Resolved 200)
       (\<lambda>k c. case c of Pgrep n \<Rightarrow> Exec_ok ''4242'' | _ \<Rightarrow> Exec_failed)
       (\<lambda>k. True)"



text \<open>A manager whose \<^verbatim>\<open>getStatus()\<close> has just seen the service healthy.\<close>

definition running_manager :: manager where
  "running_manager =
     \<lparr>config = cfg0,
      status = \<lparr>running = True, state = S_running, pid = None, lastError = None\<rparr>\<rparr>"

section \<open>Facts about the model\<close>

lemma check_eq: "check e p ep w = (Inr (probe_answer e (n_fetch w) p ep), after_fetch e p ep w)"
  by (simp add: check_def fetch_def probe_answer_def after_fetch_def split: fetch_outcome.split)

lemma checkHealth_eq:
  "checkHealth e m w =
     (Inr (probe_answer e (n_fetch w) (port (config m)) default_endpoint),
      after_fetch e (port (config m)) default_endpoint w)"
  by (simp add: checkHealth_def createHealthChecker_def check_eq)

lemma n_fetch_after_fetch [simp]: "n_fetch (after_fetch e p ep w) = Suc (n_fetch w)"
  by (simp add: n_fetch_def after_fetch_def)

lemma n_sleep_after_fetch [simp]: "n_sleep (after_fetch e p ep w) = n_sleep w"
  by (simp add: n_sleep_def after_fetch_def)

lemma n_exec_after_fetch [simp]: "n_exec (after_fetch e p ep w) = n_exec w"
  by (simp add: n_exec_def after_fetch_def)

lemma n_spawn_after_fetch [simp]: "n_spawn (after_fetch e p ep w) = n_spawn w"
  by (simp add: n_spawn_def after_fetch_def)

lemma n_fetch_sleep [simp]: "n_fetch (sleep e ms w) = n_fetch w"
  by (simp add: n_fetch_def sleep_def)

lemma n_sleep_sleep [simp]: "n_sleep (sleep e ms w) = Suc (n_sleep w)"
  by (simp add: n_sleep_def sleep_def)

lemma clock_after_fetch [simp]:
  "clock (after_fetch e p ep w) = clock w + fetch_cost e (n_fetch w)"
  by (simp add: after_fetch_def)

lemma clock_sleep [simp]: "clock (sleep e ms w) = clock w + nat ms + sleep_lag e (n_sleep w)"
  by (simp add: sleep_def)

lemma trace_after_fetch [simp]: "trace (after_fetch e p ep w) = trace w @ [E_fetch p ep]"
  by (simp add: after_fetch_def)

lemma trace_sleep [simp]: "trace (sleep e ms w) = trace w @ [E_sleep ms]"
  by (simp add: sleep_def)

lemma getStatus_eq:
  "getStatus e m w =
     (let b = probe_answer e (n_fetch w) (port (config m)) default_endpoint;
          st = (status m)\<lparr>running := b, state := (if b then S_running else S_stopped)\<rparr>
      in (Inr st, m\<lparr>status := st\<rparr>, after_fetch e (port (config m)) default_endpoint w))"
  by (simp add: getStatus_def checkHealth_eq Let_def)

lemma waitLoop_exhaust:
  assumes fail: "\<And>w'. fst (chk w') = Inr False"
  shows "(\<And>k. k < n \<Longrightarrow> int (clock (snd (chk (polls e chk cfg k w)))) - int start < timeout cfg)
    \<Longrightarrow> waitLoop e chk cfg cs start (Num (a + int n)) a s w
        = exhausted cs (a + int n) s (polls e chk cfg n w)"
proof (induction n arbitrary: a w)
  case 0
  show ?case
    by (subst waitLoop.simps) (simp add: exhausted_def)
next
  case (Suc n)
  obtain w1 where c: "chk w = (Inr False, w1)"
    using fail [of w] by (cases "chk w") auto
  have t0: "int (clock w1) - int start < timeout cfg"
    using Suc.prems [of 0] c by simp
  have step: "\<And>k. k < n \<Longrightarrow>
      int (clock (snd (chk (polls e chk cfg k (sleep e (interval cfg) w1))))) - int start
        < timeout cfg"
    using Suc.prems c by (metis Suc_less_eq polls.simps(2) snd_conv)
  have "waitLoop e chk cfg cs start (Num (a + int (Suc n))) a s w
        = waitLoop e chk cfg cs start (Num (a + int (Suc n))) (a + 1) s (sleep e (interval cfg) w1)"
    using t0 by (subst waitLoop.simps) (simp add: c)
  also have "\<dots> = exhausted cs (a + 1 + int n) s (polls e chk cfg n (sleep e (interval cfg) w1))"
    using Suc.IH [of "sleep e (interval cfg) w1" "a + 1", OF step]
    by (simp add: algebra_simps)
  finally show ?case by (simp add: c algebra_simps)
qed

lemma maxAttempts_Some [simp]:
  "maxAttempts_of \<lparr>timeout = t, interval = i, maxAttempts = Some n\<rparr>
     = (if n \<noteq> 0 then Num n else floor_div t i)"
  by (simp add: maxAttempts_of_def or_default_def)

lemma maxAttempts_None [simp]:
  "maxAttempts_of \<lparr>timeout = t, interval = i, maxAttempts = None\<rparr> = floor_div t i"
  by (simp add: maxAttempts_of_def or_default_def)

lemma waitLoop_outcome:
  assumes run: "waitLoop e chk cfg cs start maxA a s w = Some y"
  shows "wait_outcome chk cfg cs s y"
proof (rule waitLoop.raw_induct
    [where P = "\<lambda>e chk cfg cs start maxA a s w y. wait_outcome chk cfg cs s y", OF _ run])
  fix loop :: "env \<Rightarrow> checker \<Rightarrow> HealthCheckConfig \<Rightarrow> 'a supplier \<Rightarrow> nat \<Rightarrow> jsnum \<Rightarrow> int \<Rightarrow> 'a
                 \<Rightarrow> world \<Rightarrow> ((js_error + unit) \<times> 'a \<times> world) option"
    and e chk cfg currentStatus start maxA attempts s w y
  assume IH: "\<And>e chk cfg cs start maxA a s w y.
                 loop e chk cfg cs start maxA a s w = Some y \<Longrightarrow> wait_outcome chk cfg cs s y"
  assume body:
    "(if js_less attempts maxA then
        (case chk w of
           (Inl err, w1) \<Rightarrow> Some (Inl err, s, w1)
         | (Inr healthy, w1) \<Rightarrow>
             if healthy then Some (Inr (), s, w1)
             else if timeout cfg \<le> int (clock w1) - int start then
               (case currentStatus s w1 of
                  (Inl err, s2, w2) \<Rightarrow> Some (Inl err, s2, w2)
                | (Inr st, s2, w2) \<Rightarrow>
                    Some (Inl (TimeoutError ''Health check timed out'' ''health_check'' (timeout cfg)),
                          s2, w2))
             else loop e chk cfg currentStatus start maxA (attempts + 1) s
                    (sleep e (interval cfg) w1))
      else
        (case currentStatus s w of
           (Inl err, s2, w2) \<Rightarrow> Some (Inl err, s2, w2)
         | (Inr st, s2, w2) \<Rightarrow>
             Some (Inl (HealthCheckError ''Health check failed after maximum attempts'' st attempts),
                   s2, w2))) = Some y"
  show "wait_outcome chk cfg currentStatus s y"
  proof (cases "js_less attempts maxA")
    case False
    with body show ?thesis
      by (auto simp: wait_outcome_def split: prod.splits sum.splits)
  next
    case less: True
    obtain x w1 where c: "chk w = (x, w1)" by (cases "chk w")
    show ?thesis
    proof (cases x)
      case (Inl err)
      with body less c show ?thesis by (auto simp: wait_outcome_def)
    next
      case (Inr healthy)
      show ?thesis
      proof (cases "healthy \<or> timeout cfg \<le> int (clock w1) - int start")
        case True
        with body less c Inr show ?thesis
          by (auto simp: wait_outcome_def split: prod.splits sum.splits if_splits)
      next
        case False
        with body less c Inr
        have "loop e chk cfg currentStatus start maxA (attempts + 1) s
                (sleep e (interval cfg) w1) = Some y"
          by simp
        then show ?thesis by (rule IH)
      qed
    qed
  qed
qed

lemma startService_healthy:
  assumes "probe_answer e (n_fetch w) (port (config m)) default_endpoint"
  shows "startService_unix e m w
           = Some (Inr (), m, after_fetch e (port (config m)) default_endpoint w)"
    and "startService_windows e m w
           = Some (Inr (), m, after_fetch e (port (config m)) default_endpoint w)"
  using assms
  by (simp_all add: startService_unix_def startService_unix_try_def
      startService_windows_def startService_windows_try_def checkHealth_eq)

lemma execAsync_eq:
  "execAsync e c w =
     ((case exec_result e (n_exec w) c of
         Exec_failed \<Rightarrow> Inl (SysError ''Command failed'')
       | Exec_ok out \<Rightarrow> Inr out), after_exec c w)"
  by (simp add: execAsync_def after_exec_def)

lemma spawn_eq:
  "spawn e c w =
     ((if spawn_ok e (n_spawn w) c then Inr () else Inl (SysError ''spawn failed'')),
      after_spawn c w)"
  by (simp add: spawn_def after_spawn_def)

lemma after_exec_simps [simp]:
  "n_exec (after_exec c w) = Suc (n_exec w)"
  "n_fetch (after_exec c w) = n_fetch w"
  "n_sleep (after_exec c w) = n_sleep w"
  "n_spawn (after_exec c w) = n_spawn w"
  "clock (after_exec c w) = clock w"
  "trace (after_exec c w) = trace w @ [E_exec c]"
  by (simp_all add: after_exec_def n_exec_def n_fetch_def n_sleep_def n_spawn_def)

lemma after_spawn_simps [simp]:
  "n_exec (after_spawn c w) = n_exec w"
  "n_fetch (after_spawn c w) = n_fetch w"
  "n_sleep (after_spawn c w) = n_sleep w"
  "n_spawn (after_spawn c w) = Suc (n_spawn w)"
  "clock (after_spawn c w) = clock w"
  "trace (after_spawn c w) = trace w @ [E_spawn c]"
  by (simp_all add: after_spawn_def n_exec_def n_fetch_def n_sleep_def n_spawn_def)

lemma more_count_simps [simp]:
  "n_exec (sleep e ms w) = n_exec w"
  "n_spawn (sleep e ms w) = n_spawn w"
  by (simp_all add: sleep_def n_exec_def n_spawn_def)

lemma findProcess_unix_eq:
  "findProcess_unix e name w = (Inr (lookup_unix e (n_exec w) name), after_exec (Pgrep name) w)"
  by (simp add: findProcess_unix_def findProcess_unix_try_def execAsync_eq lookup_unix_def
      Let_def split: exec_outcome.split)

lemma findProcess_windows_eq:
  "findProcess_windows e name w
     = (Inr (lookup_windows e (n_exec w) name), after_exec (Tasklist name) w)"
  by (simp add: findProcess_windows_def findProcess_windows_try_def execAsync_eq
      lookup_windows_def split: exec_outcome.split re_result.split)

lemma isProcessRunning_unix_eq:
  "isProcessRunning_unix e name w
     = (Inr (lookup_unix e (n_exec w) name \<noteq> None), after_exec (Pgrep name) w)"
  by (simp add: isProcessRunning_unix_def findProcess_unix_eq)

lemma isProcessRunning_windows_eq:
  "isProcessRunning_windows e name w
     = (Inr (lookup_windows e (n_exec w) name \<noteq> None), after_exec (Tasklist name) w)"
  by (simp add: isProcessRunning_windows_def findProcess_windows_eq)

lemma truthy_parseInt: "truthy (parseInt s) = (\<exists>n. n \<noteq> 0 \<and> parseInt s = Num n)"
  by (cases "parseInt s") (auto simp: parseInt_def Let_def split: if_splits)

lemma match_here_digits: "match_here lit s = Some g \<Longrightarrow> g \<noteq> [] \<and> list_all is_digit g"
  by (auto simp: match_here_def Let_def list_all_iff split: if_splits dest: set_takeWhileD)

lemma field_search_digits:
  "field_search lit s = Re_match g \<Longrightarrow> g \<noteq> [] \<and> list_all is_digit g"
  by (induction s) (auto split: option.splits dest: match_here_digits)

lemma digit_not_space: "is_digit c \<Longrightarrow> \<not> is_space c \<and> c \<noteq> CHR ''-'' \<and> c \<noteq> CHR ''+''"
  by (auto simp: is_digit_def is_space_def)

lemma parseInt_digits:
  assumes "g \<noteq> []" "list_all is_digit g"
  shows "parseInt g = Num (int (digits_val g))"
proof -
  obtain c r where g: "g = c # r" using assms(1) by (cases g) auto
  have c: "is_digit c" using assms(2) g by simp
  have t: "takeWhile is_digit r = r"
    using assms(2) g by (simp add: takeWhile_eq_all_conv list_all_iff)
  show ?thesis
    using digit_not_space [OF c] c by (simp add: parseInt_def g Let_def t)
qed

declare stopPoll.simps [simp del]

lemma merge_set_state [simp]: "merge_status st (set_state x) = st\<lparr>state := x\<rparr>"
  by (simp add: merge_status_def set_state_def no_update_def)

lemma merge_set_stopped [simp]:
  "merge_status st set_stopped = st\<lparr>running := False, state := S_stopped\<rparr>"
  by (simp add: merge_status_def set_stopped_def no_update_def)

lemma updateStatus_simps [simp]:
  "config (updateStatus m u) = config m"
  "status (updateStatus m u) = merge_status (status m) u"
  by (simp_all add: updateStatus_def)

lemma boundary_ProcessError [simp]:
  "platform_boundary pf msg opn (ProcessError a b c d) = ProcessError a b c d"
  by (simp add: platform_boundary_def)

lemma stopProcess_unix_eq:
  "stopProcess_unix e name w =
     (case lookup_unix e (n_exec w) name of
        None \<Rightarrow> (Inr (), after_exec (Pgrep name) w)
      | Some p \<Rightarrow>
          (case exec_result e (Suc (n_exec w)) (Kill (proc_pid p)) of
             Exec_failed \<Rightarrow>
               (Inl (SysError ''Command failed''),
                after_exec (Kill (proc_pid p)) (after_exec (Pgrep name) w))
           | Exec_ok out \<Rightarrow>
               (Inr (),
                sleep e 1000 (after_exec (Kill (proc_pid p)) (after_exec (Pgrep name) w)))))"
  by (simp add: stopProcess_unix_def findProcess_unix_eq execAsync_eq
      split: option.split exec_outcome.split)

lemma stopService_unix_eq:
  "stopService_unix e m w =
     (case stopProcess_unix e ''ollama'' w of
        (Inr u, w1) \<Rightarrow> (Inr (), m\<lparr>status := (status m)\<lparr>running := False, state := S_stopped\<rparr>\<rparr>, w1)
      | (Inl err, w1) \<Rightarrow>
          (Inl (ProcessError ''Failed to stop process'' ''ollama'' Op_stop err),
           m\<lparr>status := (status m)\<lparr>state := S_stopping\<rparr>\<rparr>, w1))"
  by (simp add: stopService_unix_def stopService_unix_try_def Let_def updateStatus_def
      split: prod.split sum.split)

lemma forceStop_windows_eq:
  "forceStopProcess_windows e name w =
     ((case exec_result e (n_exec w) (TaskkillF name) of
         Exec_failed \<Rightarrow> Inl (SysError ''Command failed'')
       | Exec_ok out \<Rightarrow> Inr ()), after_exec (TaskkillF name) w)"
  by (simp add: forceStopProcess_windows_def execAsync_eq split: exec_outcome.split)

lemma stopProcess_windows_eq:
  "stopProcess_windows e name w =
     (case exec_result e (n_exec w) (Taskkill name) of
        Exec_ok out \<Rightarrow> (Inr (), sleep e 1000 (after_exec (Taskkill name) w))
      | Exec_failed \<Rightarrow> forceStopProcess_windows e name (after_exec (Taskkill name) w))"
  by (simp add: stopProcess_windows_def execAsync_eq split: exec_outcome.split)


lemma stopService_windows_eq:
  "stopService_windows e m w =
     (let w1 = after_fetch e (port (config m)) default_endpoint w;
          stopped = m\<lparr>status := (status m)\<lparr>running := False, state := S_stopped\<rparr>\<rparr>;
          stopping = m\<lparr>status := (status m)\<lparr>state := S_stopping\<rparr>\<rparr>
      in if \<not> probe_answer e (n_fetch w) (port (config m)) default_endpoint
         then (Inr (), stopped, w1)
         else (case stop_and_confirm_windows e stopping w1 of
                 (Inr u, w2) \<Rightarrow> (Inr (), stopped, w2)
               | (Inl err, w2) \<Rightarrow>
                   (case exec_result e (n_exec w2) (TaskkillF ''ollama.exe'') of
                      Exec_ok out \<Rightarrow> (Inr (), stopped, after_exec (TaskkillF ''ollama.exe'') w2)
                    | Exec_failed \<Rightarrow>
                        (Inl (ProcessError ''Failed to force stop process'' ''ollama.exe'' Op_stop
                                (SysError ''Command failed'')),
                         stopping, after_exec (TaskkillF ''ollama.exe'') w2))))"
  by (simp add: stopService_windows_def stopService_windows_try_def checkHealth_eq Let_def
      updateStatus_def forceStop_windows_eq
      split: prod.split sum.split exec_outcome.split)




lemma getStatus_refreshed:
  "getStatus e m w =
     (Inr (status (refreshed m (probe_answer e (n_fetch w) (port (config m)) default_endpoint))),
      refreshed m (probe_answer e (n_fetch w) (port (config m)) default_endpoint),
      after_fetch e (port (config m)) default_endpoint w)"
  by (simp add: getStatus_eq refreshed_def Let_def)

lemma stop_existing_unix_eq:
  "stop_existing_unix e w =
     (if lookup_unix e (n_exec w) ''ollama'' \<noteq> None
      then stopProcess_unix e ''ollama'' (after_exec (Pgrep ''ollama'') w)
      else (Inr (), after_exec (Pgrep ''ollama'') w))"
  by (simp add: stop_existing_unix_def isProcessRunning_unix_eq)

lemma stop_existing_windows_eq:
  "stop_existing_windows e w =
     (if lookup_windows e (n_exec w) ''ollama.exe'' \<noteq> None
      then stopProcess_windows e ''ollama.exe'' (after_exec (Tasklist ''ollama.exe'') w)
      else (Inr (), after_exec (Tasklist ''ollama.exe'') w))"
  by (simp add: stop_existing_windows_def isProcessRunning_windows_eq)

lemma refreshed_starting [simp]:
  "refreshed (m\<lparr>status := (status m)\<lparr>state := S_starting\<rparr>\<rparr>) b = refreshed m b"
  by (simp add: refreshed_def)

lemma mgr_wait_status:
  assumes "mgr_waitForHealth e chk m w = Some (r, m', w')"
  shows "m' = m \<or> (\<exists>b. m' = refreshed m b)"
proof -
  have "wait_outcome chk
          \<lparr>timeout = timeout (healthCheck (config m)),
           interval = interval (healthCheck (config m)), maxAttempts = None\<rparr>
          (getStatus e) m (r, m', w')"
    using assms unfolding mgr_waitForHealth_def waitForHealth_def by (rule waitLoop_outcome)
  then show ?thesis
    by (auto simp: wait_outcome_def getStatus_refreshed)
qed

lemma startService_unix_status:
  assumes "startService_unix e m w = Some (r, m', w')"
  shows "m' = m \<or> m' = m\<lparr>status := (status m)\<lparr>state := S_starting\<rparr>\<rparr> \<or> (\<exists>b. m' = refreshed m b)"
proof -
  let ?m1 = "m\<lparr>status := (status m)\<lparr>state := S_starting\<rparr>\<rparr>"
  obtain x where t: "startService_unix_try e m w = Some (x, m', w')"
    using assms
    by (auto simp: startService_unix_def split: option.splits prod.splits sum.splits)
  show ?thesis
  proof (cases "probe_answer e (n_fetch w) (port (config m)) default_endpoint")
    case True
    with t show ?thesis by (simp add: startService_unix_try_def checkHealth_eq)
  next
    case np: False
    obtain y w2 where s: "stop_existing_unix e (after_fetch e (port (config m)) default_endpoint w)
                            = (y, w2)"
      by (cases "stop_existing_unix e (after_fetch e (port (config m)) default_endpoint w)")
    show ?thesis
    proof (cases "\<exists>u. y = Inr u \<and> spawn_ok e (n_spawn w2) (command (config m))")
      case False
      with t np s show ?thesis
        by (cases y)
           (auto simp: startService_unix_try_def checkHealth_eq Let_def updateStatus_def
              startProcess_unix_def spawn_eq)
    next
      case True
      with t np s
      have "mgr_waitForHealth e (createHealthChecker e (port (config ?m1))) ?m1
              (after_spawn (command (config m)) w2) = Some (x, m', w')"
        by (auto simp: startService_unix_try_def checkHealth_eq Let_def updateStatus_def
            startProcess_unix_def spawn_eq)
      from mgr_wait_status [OF this] show ?thesis by auto
    qed
  qed
qed

lemma startService_windows_status:
  assumes "startService_windows e m w = Some (r, m', w')"
  shows "m' = m \<or> m' = m\<lparr>status := (status m)\<lparr>state := S_starting\<rparr>\<rparr> \<or> (\<exists>b. m' = refreshed m b)"
proof -
  let ?m1 = "m\<lparr>status := (status m)\<lparr>state := S_starting\<rparr>\<rparr>"
  obtain x where t: "startService_windows_try e m w = Some (x, m', w')"
    using assms
    by (auto simp: startService_windows_def split: option.splits prod.splits sum.splits)
  show ?thesis
  proof (cases "probe_answer e (n_fetch w) (port (config m)) default_endpoint")
    case True
    with t show ?thesis by (simp add: startService_windows_try_def checkHealth_eq)
  next
    case np: False
    obtain y w2 where s: "stop_existing_windows e (after_fetch e (port (config m)) default_endpoint w)
                            = (y, w2)"
      by (cases "stop_existing_windows e (after_fetch e (port (config m)) default_endpoint w)")
    show ?thesis
    proof (cases "\<exists>u. y = Inr u \<and> spawn_ok e (n_spawn w2) (command (config m))")
      case False
      with t np s show ?thesis
        by (cases y)
           (auto simp: startService_windows_try_def checkHealth_eq Let_def updateStatus_def
              startProcess_windows_def spawn_eq)
    next
      case True
      with t np s
      have "mgr_waitForHealth e (createHealthChecker e (port (config ?m1))) ?m1
              (after_spawn (command (config m)) w2) = Some (x, m', w')"
        by (auto simp: startService_windows_try_def checkHealth_eq Let_def updateStatus_def
            startProcess_windows_def spawn_eq)
      from mgr_wait_status [OF this] show ?thesis by auto
    qed
  qed
qed

lemma stopService_unix_status:
  assumes "stopService_unix e m w = (r, m', w')"
  shows "m' = m\<lparr>status := (status m)\<lparr>state := S_stopping\<rparr>\<rparr>
       \<or> m' = m\<lparr>status := (status m)\<lparr>running := False, state := S_stopped\<rparr>\<rparr>"
  using assms by (auto simp: stopService_unix_eq split: prod.splits sum.splits)

lemma stopService_windows_status:
  assumes "stopService_windows e m w = (r, m', w')"
  shows "m' = m\<lparr>status := (status m)\<lparr>state := S_stopping\<rparr>\<rparr>
       \<or> m' = m\<lparr>status := (status m)\<lparr>running := False, state := S_stopped\<rparr>\<rparr>"
  using assms
  by (auto simp: stopService_windows_eq Let_def
      split: if_splits prod.splits sum.splits exec_outcome.splits)

lemma status_inv_simps [simp]:
  "status_inv (st\<lparr>state := S_starting\<rparr>)"
  "status_inv (st\<lparr>state := S_stopping\<rparr>)"
  "status_inv (st\<lparr>running := False, state := S_stopped\<rparr>)"
  "status_inv (status (refreshed m b))"
  "status_iff (status (refreshed m b))"
  by (simp_all add: status_inv_def status_iff_def refreshed_def)

lemma checkHealth_True:
  "(fst (checkHealth e m w) = Inr True)
     = probe_answer e (n_fetch w) (port (config m)) default_endpoint"
  by (simp add: checkHealth_eq)

lemma checkHealth_False:
  "(fst (checkHealth e m w) = Inr False)
     = (\<not> probe_answer e (n_fetch w) (port (config m)) default_endpoint)"
  by (simp add: checkHealth_eq)

lemma findProcess_unix_result:
  "(fst (findProcess_unix e name w) = Inr r) = (lookup_unix e (n_exec w) name = r)"
  by (simp add: findProcess_unix_eq)

section \<open>Runs in the concrete environments\<close>

lemma env_of_simps [simp]:
  "fetch_result (env_of f x sp) k p ep = f k"
  "fetch_cost (env_of f x sp) k = 0"
  "exec_result (env_of f x sp) = x"
  "spawn_ok (env_of f x sp) k c = sp k"
  "sleep_lag (env_of f x sp) k = 0"
  by (simp_all add: env_of_def)

lemma w0_counts [simp]: "n_fetch w0 = 0" "n_exec w0 = 0" "n_sleep w0 = 0" "n_spawn w0 = 0"
  "clock w0 = 0" "trace w0 = []"
  by (simp_all add: w0_def n_fetch_def n_exec_def n_sleep_def n_spawn_def)

lemma probe_down [simp]: "probe_answer env_down k p ep = False"
  by (simp add: probe_answer_def env_down_def)

lemma env_down_simps [simp]:
  "fetch_cost env_down k = 0" "sleep_lag env_down k = 0"
  "exec_result env_down k c = Exec_failed" "spawn_ok env_down k cmd = True"
  by (simp_all add: env_down_def)

lemma cfg0_simps [simp]:
  "port cfg0 = 11434" "command cfg0 = ''ollama serve''"
  "healthCheck cfg0 = \<lparr>timeout = 5000, interval = 1000, maxAttempts = None\<rparr>"
  by (simp_all add: cfg0_def)

lemma clock_polls_down:
  "clock (polls env_down (check env_down p ep) cfg k w) = clock w + k * nat (interval cfg)"
  by (induction k arbitrary: w) (simp_all add: check_eq)

lemma trace_polls_down:
  "trace (polls env_down (check env_down p ep) cfg k w)
     = trace w @ concat (replicate k [E_fetch p ep, E_sleep (interval cfg)])"
  by (induction k arbitrary: w) (simp_all add: check_eq)

lemma probe_up [simp]: "probe_answer env_up k p ep = True"
  by (simp add: probe_answer_def env_up_def response_ok_def)

lemma env_up_simps [simp]:
  "fetch_cost env_up k = 0" "sleep_lag env_up k = 0"
  "exec_result env_up k c = Exec_failed" "spawn_ok env_up k cmd = True"
  by (simp_all add: env_up_def)


lemma waitForHealth_down_any:
  assumes m: "maxAttempts_of cfg = Num (int n)"
    and i: "0 \<le> interval cfg"
    and t: "n \<noteq> 0 \<longrightarrow> (int n - 1) * interval cfg < timeout cfg"
  shows "waitForHealth env_down (check env_down p ep) cfg (getStatus env_down) m w
         = Some (Inl (HealthCheckError ''Health check failed after maximum attempts''
                        (status (refreshed m False)) (int n)),
                 refreshed m False,
                 \<lparr>clock = clock w + n * nat (interval cfg),
                  trace = trace w @ concat (replicate n [E_fetch p ep, E_sleep (interval cfg)])
                        @ [E_fetch (port (config m)) default_endpoint]\<rparr>)"
proof -
  let ?chk = "check env_down p ep"
  have bound: "\<And>k. k < n \<Longrightarrow>
      int (clock (snd (?chk (polls env_down ?chk cfg k w)))) - int (clock w) < timeout cfg"
  proof -
    fix k assume k: "k < n"
    have "int k * interval cfg \<le> (int n - 1) * interval cfg"
      using k i by (intro mult_right_mono) auto
    with t k show "int (clock (snd (?chk (polls env_down ?chk cfg k w)))) - int (clock w)
                    < timeout cfg"
      using i by (simp add: check_eq clock_polls_down)
  qed
  have "waitLoop env_down ?chk cfg (getStatus env_down) (clock w) (Num (0 + int n)) 0 m w
        = exhausted (getStatus env_down) (0 + int n) m (polls env_down ?chk cfg n w)"
  proof (rule waitLoop_exhaust)
    show "\<And>w'. fst (?chk w') = Inr False" by (simp add: check_eq)
    show "\<And>k. k < n \<Longrightarrow>
      int (clock (snd (?chk (polls env_down ?chk cfg k w)))) - int (clock w) < timeout cfg"
      by (rule bound)
  qed
  moreover have "polls env_down ?chk cfg n w
      = \<lparr>clock = clock w + n * nat (interval cfg),
         trace = trace w @ concat (replicate n [E_fetch p ep, E_sleep (interval cfg)])\<rparr>"
    using clock_polls_down [of p ep cfg n w] trace_polls_down [of p ep cfg n w]
    by (cases "polls env_down ?chk cfg n w") simp
  ultimately show ?thesis
    by (simp add: waitForHealth_def m exhausted_def getStatus_refreshed after_fetch_def)
qed

lemma stop_running_unkillable:
  "stopService_unix env_unkillable running_manager
      \<lparr>clock = 0, trace = [E_fetch 11434 default_endpoint]\<rparr>
     = (Inl (ProcessError ''Failed to stop process'' ''ollama'' Op_stop
               (SysError ''Command failed'')),
        \<lparr>config = cfg0,
         status = \<lparr>running = True, state = S_stopping, pid = None, lastError = None\<rparr>\<rparr>,
        \<lparr>clock = 0,
         trace = [E_fetch 11434 default_endpoint, E_exec (Pgrep ''ollama''),
                  E_exec (Kill (Num 4242))]\<rparr>)"
  by (simp add: stopService_unix_eq stopProcess_unix_eq lookup_unix_def env_unkillable_def
      parseInt_def trim_def is_space_def is_digit_def digits_val_def digit_val_def Let_def
      running_manager_def after_exec_def n_exec_def)

lemma lookup_found [simp]:
  "lookup_unix env_found k ''ollama'' = Some \<lparr>proc_pid = Num 4242, proc_name = ''ollama''\<rparr>"
  "lookup_windows env_found k ''ollama.exe''
     = Some \<lparr>proc_pid = Num 4242, proc_name = ''ollama.exe''\<rparr>"
  by (simp_all add: lookup_unix_def lookup_windows_def env_found_def found_row_def
      regexp_match_def simple_name_def regexp_special_def match_here_def pat_char_def dq_def
      is_digit_def parseInt_def trim_def is_space_def digits_val_def digit_val_def Let_def)

lemma env_found_simps [simp]:
  "probe_answer env_found k p ep = False"
  "exec_result env_found k (Kill n) = Exec_failed"
  "exec_result env_found k (Taskkill nm) = Exec_failed"
  "exec_result env_found k (TaskkillF nm) = Exec_failed"
  "fetch_cost env_found k = 0" "sleep_lag env_found k = 0"
  by (simp_all add: probe_answer_def env_found_def)

lemma start_found_unix:
  "startService_unix env_found (new_manager cfg0) w0
     = Some (Inl (ProcessError ''Failed to stop existing process'' ''ollama'' Op_stop
                    (SysError ''Command failed'')),
             \<lparr>config = cfg0,
              status = \<lparr>running = False, state = S_starting, pid = None, lastError = None\<rparr>\<rparr>,
             \<lparr>clock = 0,
              trace = [E_fetch 11434 default_endpoint, E_exec (Pgrep ''ollama''),
                       E_exec (Pgrep ''ollama''), E_exec (Kill (Num 4242))]\<rparr>)"
  by (simp add: startService_unix_def startService_unix_try_def checkHealth_eq
      stop_existing_unix_eq stopProcess_unix_eq
      new_manager_def initial_status_def updateStatus_def Let_def
      after_fetch_def after_exec_def w0_def)

lemma start_found_windows:
  "startService_windows env_found (new_manager cfg0) w0
     = Some (Inl (ProcessError ''Failed to stop existing process'' ''ollama.exe'' Op_stop
                    (SysError ''Command failed'')),
             \<lparr>config = cfg0,
              status = \<lparr>running = False, state = S_starting, pid = None, lastError = None\<rparr>\<rparr>,
             \<lparr>clock = 0,
              trace = [E_fetch 11434 default_endpoint, E_exec (Tasklist ''ollama.exe''),
                       E_exec (Taskkill ''ollama.exe''), E_exec (TaskkillF ''ollama.exe'')]\<rparr>)"
  by (simp add: startService_windows_def startService_windows_try_def checkHealth_eq
      stop_existing_windows_eq stopProcess_windows_eq forceStop_windows_eq
      new_manager_def initial_status_def updateStatus_def Let_def
      after_fetch_def after_exec_def w0_def)

lemma start_down_test:
  "startService_unix env_down (new_manager cfg_test) w0
     = Some (Inl (PlatformError ''Failed to start service on Unix platform'' Unix ''start''
                    (HealthCheckError ''Health check failed after maximum attempts''
                       \<lparr>running = False, state = S_stopped, pid = None, lastError = None\<rparr> 10)),
             \<lparr>config = cfg_test,
              status = \<lparr>running = False, state = S_stopped, pid = None, lastError = None\<rparr>\<rparr>,
             \<lparr>clock = 5000,
              trace = [E_fetch 11434 default_endpoint, E_exec (Pgrep ''ollama''),
                       E_spawn ''ollama serve'',
                       E_fetch 11434 default_endpoint, E_sleep 500,
                       E_fetch 11434 default_endpoint, E_sleep 500,
                       E_fetch 11434 default_endpoint, E_sleep 500,
                       E_fetch 11434 default_endpoint, E_sleep 500,
                       E_fetch 11434 default_endpoint, E_sleep 500,
                       E_fetch 11434 default_endpoint, E_sleep 500,
                       E_fetch 11434 default_endpoint, E_sleep 500,
                       E_fetch 11434 default_endpoint, E_sleep 500,
                       E_fetch 11434 default_endpoint, E_sleep 500,
                       E_fetch 11434 default_endpoint, E_sleep 500,
                       E_fetch 11434 default_endpoint]\<rparr>)"
proof -
  have m: "maxAttempts_of \<lparr>timeout = 5000, interval = 500, maxAttempts = None\<rparr> = Num (int 10)"
    by (simp add: floor_div_def)
  have r: "concat (replicate 10 [a, b])
             = [a, b, a, b, a, b, a, b, a, b, a, b, a, b, a, b, a, b, a, b]" for a b :: event
    by (simp add: numeral_eq_Suc)
  show ?thesis
    by (simp add: startService_unix_def startService_unix_try_def checkHealth_eq
        stop_existing_unix_eq lookup_unix_def startProcess_unix_def spawn_eq
        mgr_waitForHealth_def createHealthChecker_def waitForHealth_down_any [OF m] r
        platform_boundary_def refreshed_def cfg_test_def
        new_manager_def initial_status_def updateStatus_def Let_def
        after_fetch_def after_exec_def after_spawn_def w0_def)
qed

lemma start_down_test_windows:
  "startService_windows env_down (new_manager cfg_test) w0
     = Some (Inl (PlatformError ''Failed to start service on Windows platform'' Windows ''start''
                    (HealthCheckError ''Health check failed after maximum attempts''
                       \<lparr>running = False, state = S_stopped, pid = None, lastError = None\<rparr> 10)),
             \<lparr>config = cfg_test,
              status = \<lparr>running = False, state = S_stopped, pid = None, lastError = None\<rparr>\<rparr>,
             \<lparr>clock = 5000,
              trace = [E_fetch 11434 default_endpoint, E_exec (Tasklist ''ollama.exe''),
                       E_spawn ''ollama serve'',
                       E_fetch 11434 default_endpoint, E_sleep 500,
                       E_fetch 11434 default_endpoint, E_sleep 500,
                       E_fetch 11434 default_endpoint, E_sleep 500,
                       E_fetch 11434 default_endpoint, E_sleep 500,
                       E_fetch 11434 default_endpoint, E_sleep 500,
                       E_fetch 11434 default_endpoint, E_sleep 500,
                       E_fetch 11434 default_endpoint, E_sleep 500,
                       E_fetch 11434 default_endpoint, E_sleep 500,
                       E_fetch 11434 default_endpoint, E_sleep 500,
                       E_fetch 11434 default_endpoint, E_sleep 500,
                       E_fetch 11434 default_endpoint]\<rparr>)"
proof -
  have m: "maxAttempts_of \<lparr>timeout = 5000, interval = 500, maxAttempts = None\<rparr> = Num (int 10)"
    by (simp add: floor_div_def)
  have r: "concat (replicate 10 [a, b])
             = [a, b, a, b, a, b, a, b, a, b, a, b, a, b, a, b, a, b, a, b]" for a b :: event
    by (simp add: numeral_eq_Suc)
  show ?thesis
    by (simp add: startService_windows_def startService_windows_try_def checkHealth_eq
        stop_existing_windows_eq lookup_windows_def startProcess_windows_def spawn_eq
        mgr_waitForHealth_def createHealthChecker_def waitForHealth_down_any [OF m] r
        platform_boundary_def refreshed_def cfg_test_def
        new_manager_def initial_status_def updateStatus_def Let_def
        after_fetch_def after_exec_def after_spawn_def w0_def)
qed

lemma polls_down:
  "polls env_down (check env_down p ep) cfg k w
     = \<lparr>clock = clock w + k * nat (interval cfg),
        trace = trace w @ concat (replicate k [E_fetch p ep, E_sleep (interval cfg)])\<rparr>"
  using clock_polls_down [of p ep cfg k w] trace_polls_down [of p ep cfg k w]
  by (cases "polls env_down (check env_down p ep) cfg k w") simp

lemma wait_up:
  "mgr_waitForHealth env_up (createHealthChecker env_up 11434) running_manager w0
     = Some (Inr (), running_manager, \<lparr>clock = 0, trace = [E_fetch 11434 default_endpoint]\<rparr>)"
  by (simp add: mgr_waitForHealth_def waitForHealth_def running_manager_def floor_div_def)
     (subst waitLoop.simps,
      simp add: createHealthChecker_def check_eq after_fetch_def w0_def n_fetch_def)

section \<open>The claims\<close>

text \<open>
  C1. With a probe that always fails, \<^verbatim>\<open>waitForHealth\<close> raises the attempt-exhaustion
  error \<^verbatim>\<open>HealthCheckError\<close>, carrying the attempt count, whenever the loop runs out of
  attempts (\<open>attempts = maxAttempts\<close>) without the wall-clock condition having fired at
  any of its checks. In particular, with a timeout of 5000 ms, an interval of 1000 ms,
  three attempts and probes and timers whose delays add up to less than the remaining
  3000 ms, the error carries \<open>attempts = 3\<close> and is not the timeout error.
\<close>

theorem waitForHealth_exhaustion:
  "((\<forall>w'. fst (chk w') = Inr False)
      \<and> maxAttempts_of cfg = Num (int n)
      \<and> (\<forall>k<n. int (clock (snd (chk (polls e chk cfg k w)))) - int (clock w) < timeout cfg)
      \<and> cs s (polls e chk cfg n w) = (Inr st, s2, w2)
    \<longrightarrow> waitForHealth e chk cfg cs s w
          = Some (Inl (HealthCheckError ''Health check failed after maximum attempts'' st (int n)),
                  s2, w2))
   \<and> ((\<forall>w'. fst (check e p ep w') = Inr False)
      \<and> fetch_cost e (n_fetch w) + fetch_cost e (n_fetch w + 1) + fetch_cost e (n_fetch w + 2)
          + sleep_lag e (n_sleep w) + sleep_lag e (n_sleep w + 1) < 3000
      \<and> cs s (polls e (check e p ep) cfg_5000_1000_3 3 w) = (Inr st, s2, w2)
    \<longrightarrow> waitForHealth e (check e p ep) cfg_5000_1000_3 cs s w
          = Some (Inl (HealthCheckError ''Health check failed after maximum attempts'' st 3),
                  s2, w2))"
proof (intro conjI impI)
  assume h: "(\<forall>w'. fst (chk w') = Inr False)
      \<and> maxAttempts_of cfg = Num (int n)
      \<and> (\<forall>k<n. int (clock (snd (chk (polls e chk cfg k w)))) - int (clock w) < timeout cfg)
      \<and> cs s (polls e chk cfg n w) = (Inr st, s2, w2)"
  then have "waitLoop e chk cfg cs (clock w) (Num (0 + int n)) 0 s w
             = exhausted cs (0 + int n) s (polls e chk cfg n w)"
    by (intro waitLoop_exhaust) auto
  with h show "waitForHealth e chk cfg cs s w
          = Some (Inl (HealthCheckError ''Health check failed after maximum attempts'' st (int n)),
                  s2, w2)"
    by (simp add: waitForHealth_def exhausted_def)
next
  let ?chk = "check e p ep"
  let ?cfg = cfg_5000_1000_3
  assume h: "(\<forall>w'. fst (check e p ep w') = Inr False)
      \<and> fetch_cost e (n_fetch w) + fetch_cost e (n_fetch w + 1) + fetch_cost e (n_fetch w + 2)
          + sleep_lag e (n_sleep w) + sleep_lag e (n_sleep w + 1) < 3000
      \<and> cs s (polls e (check e p ep) cfg_5000_1000_3 3 w) = (Inr st, s2, w2)"
  have fail: "\<And>w'. fst (?chk w') = Inr False"
    using h by blast
  have bound: "\<And>k. k < 3 \<Longrightarrow>
      int (clock (snd (?chk (polls e ?chk ?cfg k w)))) - int (clock w) < timeout ?cfg"
  proof -
    fix k :: nat
    assume "k < 3"
    then consider "k = 0" | "k = 1" | "k = 2" by linarith
    then show "int (clock (snd (?chk (polls e ?chk ?cfg k w)))) - int (clock w) < timeout ?cfg"
      using h
      by cases (simp_all add: check_eq cfg_5000_1000_3_def numeral_2_eq_2)
  qed
  have "waitLoop e ?chk ?cfg cs (clock w) (Num (0 + int 3)) 0 s w
             = exhausted cs (0 + int 3) s (polls e ?chk ?cfg 3 w)"
    using fail bound by (rule waitLoop_exhaust)
  with h show "waitForHealth e ?chk ?cfg cs s w
          = Some (Inl (HealthCheckError ''Health check failed after maximum attempts'' st 3),
                  s2, w2)"
    by (simp add: waitForHealth_def exhausted_def cfg_5000_1000_3_def)
qed

theorem waitForHealth_exhaustion_witness:
  "waitForHealth env_down (check env_down 11434 default_endpoint) cfg_5000_1000_3
      (getStatus env_down) (new_manager cfg0) w0
   = Some (Inl (HealthCheckError ''Health check failed after maximum attempts''
                  \<lparr>running = False, state = S_stopped, pid = None, lastError = None\<rparr> 3),
           new_manager cfg0,
           \<lparr>clock = 3000,
            trace = [E_fetch 11434 default_endpoint, E_sleep 1000,
                   E_fetch 11434 default_endpoint, E_sleep 1000,
                   E_fetch 11434 default_endpoint, E_sleep 1000,
                   E_fetch 11434 default_endpoint]\<rparr>)
   \<and> waitForHealth env_down (check env_down 11434 default_endpoint) cfg_2500_1000
      (getStatus env_down) (new_manager cfg0) w0
   = Some (Inl (HealthCheckError ''Health check failed after maximum attempts''
                  \<lparr>running = False, state = S_stopped, pid = None, lastError = None\<rparr> 2),
           new_manager cfg0,
           \<lparr>clock = 2000,
            trace = [E_fetch 11434 default_endpoint, E_sleep 1000,
                   E_fetch 11434 default_endpoint, E_sleep 1000,
                   E_fetch 11434 default_endpoint]\<rparr>)"
proof -
  let ?chk = "check env_down 11434 default_endpoint"
  let ?st = "\<lparr>running = False, state = S_stopped, pid = None, lastError = None\<rparr>"
  let ?w3 = "\<lparr>clock = 3000,
            trace = [E_fetch 11434 default_endpoint, E_sleep 1000,
                   E_fetch 11434 default_endpoint, E_sleep 1000,
                   E_fetch 11434 default_endpoint, E_sleep 1000,
                   E_fetch 11434 default_endpoint]\<rparr>"
  let ?w2 = "\<lparr>clock = 2000,
            trace = [E_fetch 11434 default_endpoint, E_sleep 1000,
                   E_fetch 11434 default_endpoint, E_sleep 1000,
                   E_fetch 11434 default_endpoint]\<rparr>"
  have fail: "\<forall>w'. fst (?chk w') = Inr False"
    by (simp add: check_eq)
  have r3: "concat (replicate 3 [a, b]) = [a, b, a, b, a, b]" for a b :: event
    by (simp add: numeral_eq_Suc)
  have r2: "concat (replicate 2 [a, b]) = [a, b, a, b]" for a b :: event
    by (simp add: numeral_eq_Suc)
  have snap3: "getStatus env_down (new_manager cfg0) (polls env_down ?chk cfg_5000_1000_3 3 w0)
      = (Inr ?st, new_manager cfg0, ?w3)"
    by (simp add: polls_down r3 cfg_5000_1000_3_def getStatus_eq new_manager_def
        initial_status_def after_fetch_def Let_def)
  have snap2: "getStatus env_down (new_manager cfg0) (polls env_down ?chk cfg_2500_1000 2 w0)
      = (Inr ?st, new_manager cfg0, ?w2)"
    by (simp add: polls_down r2 cfg_2500_1000_def getStatus_eq new_manager_def
        initial_status_def after_fetch_def Let_def)
  have m2: "maxAttempts_of cfg_2500_1000 = Num (int 2)"
    by (simp add: cfg_2500_1000_def floor_div_def)
  have b2: "\<forall>k<2. int (clock (snd (?chk (polls env_down ?chk cfg_2500_1000 k w0)))) - int (clock w0)
                < timeout cfg_2500_1000"
  proof (intro allI impI)
    fix k :: nat
    assume "k < 2"
    then have "int k * 1000 < 2500" by simp
    then show "int (clock (snd (?chk (polls env_down ?chk cfg_2500_1000 k w0)))) - int (clock w0)
                < timeout cfg_2500_1000"
      by (simp add: check_eq clock_polls_down cfg_2500_1000_def)
  qed
  have A: "waitForHealth env_down ?chk cfg_5000_1000_3 (getStatus env_down) (new_manager cfg0) w0
      = Some (Inl (HealthCheckError ''Health check failed after maximum attempts'' ?st 3),
              new_manager cfg0, ?w3)"
    using waitForHealth_exhaustion [where e = env_down and p = 11434 and ep = default_endpoint
        and w = w0 and cs = "getStatus env_down" and s = "new_manager cfg0"
        and st = ?st and ?s2.0 = "new_manager cfg0" and ?w2.0 = ?w3, THEN conjunct2]
      fail snap3
    by simp
  have B: "waitForHealth env_down ?chk cfg_2500_1000 (getStatus env_down) (new_manager cfg0) w0
      = Some (Inl (HealthCheckError ''Health check failed after maximum attempts'' ?st 2),
              new_manager cfg0, ?w2)"
    using waitForHealth_exhaustion [where e = env_down and chk = ?chk and cfg = cfg_2500_1000
        and n = 2 and w = w0 and cs = "getStatus env_down" and s = "new_manager cfg0"
        and st = ?st and ?s2.0 = "new_manager cfg0" and ?w2.0 = ?w2, THEN conjunct1]
      fail m2 b2 snap2
    by simp
  from A B show ?thesis by simp
qed

text \<open>
  C2 (the code where a start fails). The claim: every failure inside \<^verbatim>\<open>startService\<close>
  moves the status to \<open>error\<close> with \<^verbatim>\<open>lastError\<close> recorded, the typed error reaches
  the caller unchanged, and a subsequent \<^verbatim>\<open>getStatus()\<close> shows \<open>error\<close>; the
  repository's integration test expects that state of a start during which every probe is
  rejected. The code at that input, a fresh manager configured as in the test, no process
  found and the spawn accepted: on either platform \<^verbatim>\<open>startService\<close> raises a
  \<^verbatim>\<open>PlatformError\<close> whose cause is the \<^verbatim>\<open>HealthCheckError\<close> of the tenth attempt, the
  stored state is \<open>stopped\<close> with no \<^verbatim>\<open>lastError\<close>, and the \<^verbatim>\<open>getStatus()\<close> that
  follows reports \<open>stopped\<close>. With a stray process whose \<^verbatim>\<open>kill\<close> fails, the
  \<^verbatim>\<open>ProcessError\<close> is raised, the state is left \<open>starting\<close> with no
  \<^verbatim>\<open>lastError\<close>, and \<^verbatim>\<open>getStatus()\<close> again reports \<open>stopped\<close>.
\<close>

theorem startService_failed_start:
  "startService_unix env_down (new_manager cfg_test) w0
     = Some (Inl (PlatformError ''Failed to start service on Unix platform'' Unix ''start''
                    (HealthCheckError ''Health check failed after maximum attempts''
                       \<lparr>running = False, state = S_stopped, pid = None, lastError = None\<rparr> 10)),
             \<lparr>config = cfg_test,
              status = \<lparr>running = False, state = S_stopped, pid = None, lastError = None\<rparr>\<rparr>,
             \<lparr>clock = 5000,
              trace = [E_fetch 11434 default_endpoint, E_exec (Pgrep ''ollama''),
                       E_spawn ''ollama serve'',
                       E_fetch 11434 default_endpoint, E_sleep 500,
                       E_fetch 11434 default_endpoint, E_sleep 500,
                       E_fetch 11434 default_endpoint, E_sleep 500,
                       E_fetch 11434 default_endpoint, E_sleep 500,
                       E_fetch 11434 default_endpoint, E_sleep 500,
                       E_fetch 11434 default_endpoint, E_sleep 500,
                       E_fetch 11434 default_endpoint, E_sleep 500,
                       E_fetch 11434 default_endpoint, E_sleep 500,
                       E_fetch 11434 default_endpoint, E_sleep 500,
                       E_fetch 11434 default_endpoint, E_sleep 500,
                       E_fetch 11434 default_endpoint]\<rparr>)
   \<and> fst (getStatus env_down
             \<lparr>config = cfg_test,
              status = \<lparr>running = False, state = S_stopped, pid = None, lastError = None\<rparr>\<rparr>
             \<lparr>clock = 5000,
              trace = [E_fetch 11434 default_endpoint, E_exec (Pgrep ''ollama''),
                       E_spawn ''ollama serve'',
                       E_fetch 11434 default_endpoint, E_sleep 500,
                       E_fetch 11434 default_endpoint, E_sleep 500,
                       E_fetch 11434 default_endpoint, E_sleep 500,
                       E_fetch 11434 default_endpoint, E_sleep 500,
                       E_fetch 11434 default_endpoint, E_sleep 500,
                       E_fetch 11434 default_endpoint, E_sleep 500,
                       E_fetch 11434 default_endpoint, E_sleep 500,
                       E_fetch 11434 default_endpoint, E_sleep 500,
                       E_fetch 11434 default_endpoint, E_sleep 500,
                       E_fetch 11434 default_endpoint, E_sleep 500,
                       E_fetch 11434 default_endpoint]\<rparr>)
     = Inr \<lparr>running = False, state = S_stopped, pid = None, lastError = None\<rparr>
   \<and> startService_windows env_down (new_manager cfg_test) w0
     = Some (Inl (PlatformError ''Failed to start service on Windows platform'' Windows ''start''
                    (HealthCheckError ''Health check failed after maximum attempts''
                       \<lparr>running = False, state = S_stopped, pid = None, lastError = None\<rparr> 10)),
             \<lparr>config = cfg_test,
              status = \<lparr>running = False, state = S_stopped, pid = None, lastError = None\<rparr>\<rparr>,
             \<lparr>clock = 5000,
              trace = [E_fetch 11434 default_endpoint, E_exec (Tasklist ''ollama.exe''),
                       E_spawn ''ollama serve'',
                       E_fetch 11434 default_endpoint, E_sleep 500,
                       E_fetch 11434 default_endpoint, E_sleep 500,
                       E_fetch 11434 default_endpoint, E_sleep 500,
                       E_fetch 11434 default_endpoint, E_sleep 500,
                       E_fetch 11434 default_endpoint, E_sleep 500,
                       E_fetch 11434 default_endpoint, E_sleep 500,
                       E_fetch 11434 default_endpoint, E_sleep 500,
                       E_fetch 11434 default_endpoint, E_sleep 500,
                       E_fetch 11434 default_endpoint, E_sleep 500,
                       E_fetch 11434 default_endpoint, E_sleep 500,
                       E_fetch 11434 default_endpoint]\<rparr>)
   \<and> fst (getStatus env_down
             \<lparr>config = cfg_test,
              status = \<lparr>running = False, state = S_stopped, pid = None, lastError = None\<rparr>\<rparr>
             \<lparr>clock = 5000,
              trace = [E_fetch 11434 default_endpoint, E_exec (Tasklist ''ollama.exe''),
                       E_spawn ''ollama serve'',
                       E_fetch 11434 default_endpoint, E_sleep 500,
                       E_fetch 11434 default_endpoint, E_sleep 500,
                       E_fetch 11434 default_endpoint, E_sleep 500,
                       E_fetch 11434 default_endpoint, E_sleep 500,
                       E_fetch 11434 default_endpoint, E_sleep 500,
                       E_fetch 11434 default_endpoint, E_sleep 500,
                       E_fetch 11434 default_endpoint, E_sleep 500,
                       E_fetch 11434 default_endpoint, E_sleep 500,
                       E_fetch 11434 default_endpoint, E_sleep 500,
                       E_fetch 11434 default_endpoint, E_sleep 500,
                       E_fetch 11434 default_endpoint]\<rparr>)
     = Inr \<lparr>running = False, state = S_stopped, pid = None, lastError = None\<rparr>
   \<and> startService_unix env_found (new_manager cfg0) w0
     = Some (Inl (ProcessError ''Failed to stop existing process'' ''ollama'' Op_stop
                    (SysError ''Command failed'')),
             \<lparr>config = cfg0,
              status = \<lparr>running = False, state = S_starting, pid = None, lastError = None\<rparr>\<rparr>,
             \<lparr>clock = 0,
              trace = [E_fetch 11434 default_endpoint, E_exec (Pgrep ''ollama''),
                       E_exec (Pgrep ''ollama''), E_exec (Kill (Num 4242))]\<rparr>)
   \<and> fst (getStatus env_found
             \<lparr>config = cfg0,
              status = \<lparr>running = False, state = S_starting, pid = None, lastError = None\<rparr>\<rparr>
             \<lparr>clock = 0,
              trace = [E_fetch 11434 default_endpoint, E_exec (Pgrep ''ollama''),
                       E_exec (Pgrep ''ollama''), E_exec (Kill (Num 4242))]\<rparr>)
     = Inr \<lparr>running = False, state = S_stopped, pid = None, lastError = None\<rparr>"
  by (simp add: start_found_unix start_down_test start_down_test_windows)
     (simp add: getStatus_eq Let_def)

text \<open>
  C3 (as stated: \<^verbatim>\<open>waitForHealth\<close> uses \<^verbatim>\<open>config.maxAttempts\<close> whenever the field is
  present, also when it is 0). The code joins the field and the quotient with \<^verbatim>\<open>||\<close>,
  so a field of 0 is replaced by the quotient: with a timeout of 5000 ms, an interval of
  1000 ms and \<^verbatim>\<open>maxAttempts: 0\<close> a probe that always fails is asked five times and the
  error carries \<open>attempts = 5\<close>.
\<close>

theorem maxAttempts_zero_counterexample:
  "maxAttempts cfg_zero = Some 0
   \<and> maxAttempts_of cfg_zero = Num 5
   \<and> waitForHealth env_down (check env_down 11434 default_endpoint) cfg_zero
        (getStatus env_down) (new_manager cfg0) w0
      = Some (Inl (HealthCheckError ''Health check failed after maximum attempts''
                     initial_status 5),
              new_manager cfg0,
              \<lparr>clock = 5000,
               trace = [E_fetch 11434 default_endpoint, E_sleep 1000,
                      E_fetch 11434 default_endpoint, E_sleep 1000,
                      E_fetch 11434 default_endpoint, E_sleep 1000,
                      E_fetch 11434 default_endpoint, E_sleep 1000,
                      E_fetch 11434 default_endpoint, E_sleep 1000,
                      E_fetch 11434 default_endpoint]\<rparr>)"
proof -
  have m: "maxAttempts_of cfg_zero = Num (int 5)"
    by (simp add: cfg_zero_def floor_div_def)
  have r: "concat (replicate 5 [a, b]) = [a, b, a, b, a, b, a, b, a, b]" for a b :: event
    by (simp add: numeral_eq_Suc)
  show ?thesis
    using waitForHealth_down_any [OF m, of 11434 default_endpoint "new_manager cfg0" w0] m
    by (simp add: cfg_zero_def r refreshed_def new_manager_def initial_status_def)
qed

text \<open>
  C3 (amended). \<^verbatim>\<open>waitForHealth\<close> uses \<^verbatim>\<open>config.maxAttempts\<close> when the field is
  present and not 0, and \<^verbatim>\<open>floor(timeout / interval)\<close> when the field is absent or 0
  (for an interval other than 0, where the quotient is a number).
\<close>

theorem maxAttempts_used:
  "(\<forall>n. maxAttempts cfg = Some n \<and> n \<noteq> 0 \<longrightarrow> maxAttempts_of cfg = Num n)
   \<and> ((maxAttempts cfg = None \<or> maxAttempts cfg = Some 0) \<and> interval cfg \<noteq> 0 \<longrightarrow>
        maxAttempts_of cfg = Num \<lfloor>real_of_int (timeout cfg) / real_of_int (interval cfg)\<rfloor>)
   \<and> waitForHealth e chk cfg cs s w
        = waitLoop e chk cfg cs (clock w) (maxAttempts_of cfg) 0 s w"
  by (auto simp: maxAttempts_of_def or_default_def floor_div_def waitForHealth_def
      floor_divide_of_int_eq)

theorem maxAttempts_used_witness:
  "maxAttempts_of cfg_5000_1000_3 = Num 3
   \<and> maxAttempts_of \<lparr>timeout = 5000, interval = 1000, maxAttempts = None\<rparr> = Num 5
   \<and> maxAttempts_of \<lparr>timeout = 2500, interval = 1000, maxAttempts = Some 0\<rparr> = Num 2"
  using maxAttempts_used [of cfg_5000_1000_3, THEN conjunct1]
    maxAttempts_used [of "\<lparr>timeout = 5000, interval = 1000, maxAttempts = None\<rparr>",
      THEN conjunct2, THEN conjunct1]
    maxAttempts_used [of "\<lparr>timeout = 2500, interval = 1000, maxAttempts = Some 0\<rparr>",
      THEN conjunct2, THEN conjunct1]
  by (simp add: cfg_5000_1000_3_def)

text \<open>
  C4 (as stated: with \<^verbatim>\<open>checkHealth()\<close> already true \<^verbatim>\<open>startService()\<close> returns at
  once without a process operation, and two calls in sequence leave
  \<^verbatim>\<open>state == 'running'\<close>). A fresh manager whose service is already healthy: on either
  platform both calls return after their one probe, with no process operation, and the
  stored state is \<open>stopped\<close> after each of them, as it was before.
\<close>

theorem startService_idempotent_counterexample:
  "fst (checkHealth env_up (new_manager cfg0) w0) = Inr True
   \<and> startService_unix env_up (new_manager cfg0) w0
     = Some (Inr (),
             \<lparr>config = cfg0,
              status = \<lparr>running = False, state = S_stopped, pid = None, lastError = None\<rparr>\<rparr>,
             \<lparr>clock = 0, trace = [E_fetch 11434 default_endpoint]\<rparr>)
   \<and> startService_unix env_up
        \<lparr>config = cfg0,
         status = \<lparr>running = False, state = S_stopped, pid = None, lastError = None\<rparr>\<rparr>
        \<lparr>clock = 0, trace = [E_fetch 11434 default_endpoint]\<rparr>
     = Some (Inr (),
             \<lparr>config = cfg0,
              status = \<lparr>running = False, state = S_stopped, pid = None, lastError = None\<rparr>\<rparr>,
             \<lparr>clock = 0, trace = [E_fetch 11434 default_endpoint,
                                   E_fetch 11434 default_endpoint]\<rparr>)
   \<and> startService_windows env_up (new_manager cfg0) w0
     = Some (Inr (),
             \<lparr>config = cfg0,
              status = \<lparr>running = False, state = S_stopped, pid = None, lastError = None\<rparr>\<rparr>,
             \<lparr>clock = 0, trace = [E_fetch 11434 default_endpoint]\<rparr>)
   \<and> startService_windows env_up
        \<lparr>config = cfg0,
         status = \<lparr>running = False, state = S_stopped, pid = None, lastError = None\<rparr>\<rparr>
        \<lparr>clock = 0, trace = [E_fetch 11434 default_endpoint]\<rparr>
     = Some (Inr (),
             \<lparr>config = cfg0,
              status = \<lparr>running = False, state = S_stopped, pid = None, lastError = None\<rparr>\<rparr>,
             \<lparr>clock = 0, trace = [E_fetch 11434 default_endpoint,
                                   E_fetch 11434 default_endpoint]\<rparr>)"
  by (simp add: startService_healthy checkHealth_True after_fetch_def
      new_manager_def initial_status_def n_fetch_def w0_def)

text \<open>
  C4 (amended). When \<^verbatim>\<open>checkHealth()\<close> answers true, \<^verbatim>\<open>startService()\<close> returns at
  once on either platform: its only interaction is that one probe (no lookup, stop or
  spawn) and the stored status is left as it was. Called twice in sequence with the
  service healthy, the second call too performs no process operation, and the stored
  state is the one before the calls: \<open>running\<close> if it was \<open>running\<close>, and otherwise
  unchanged.
\<close>

theorem startService_idempotent:
  "(fst (checkHealth e m w) = Inr True \<longrightarrow>
      (\<exists>w1. startService_unix e m w = Some (Inr (), m, w1)
            \<and> trace w1 = trace w @ [E_fetch (port (config m)) default_endpoint])
    \<and> (\<exists>w1. startService_windows e m w = Some (Inr (), m, w1)
            \<and> trace w1 = trace w @ [E_fetch (port (config m)) default_endpoint]))
   \<and> (startService_unix e m w = Some (r1, m1, w1) \<and> fst (checkHealth e m w) = Inr True
        \<and> fst (checkHealth e m1 w1) = Inr True \<longrightarrow>
      r1 = Inr () \<and> m1 = m
      \<and> (\<exists>w2. startService_unix e m1 w1 = Some (Inr (), m, w2)
          \<and> trace w2 = trace w @ [E_fetch (port (config m)) default_endpoint,
                                    E_fetch (port (config m)) default_endpoint]
          \<and> filter is_process_op (trace w2) = filter is_process_op (trace w)))
   \<and> (startService_windows e m w = Some (r1, m1, w1) \<and> fst (checkHealth e m w) = Inr True
        \<and> fst (checkHealth e m1 w1) = Inr True \<longrightarrow>
      r1 = Inr () \<and> m1 = m
      \<and> (\<exists>w2. startService_windows e m1 w1 = Some (Inr (), m, w2)
          \<and> trace w2 = trace w @ [E_fetch (port (config m)) default_endpoint,
                                    E_fetch (port (config m)) default_endpoint]
          \<and> filter is_process_op (trace w2) = filter is_process_op (trace w)))"
  by (auto simp: checkHealth_True startService_healthy)

theorem startService_idempotent_witness:
  "startService_unix env_up running_manager w0
     = Some (Inr (),
             \<lparr>config = cfg0,
              status = \<lparr>running = True, state = S_running, pid = None, lastError = None\<rparr>\<rparr>,
             \<lparr>clock = 0, trace = [E_fetch 11434 default_endpoint]\<rparr>)
   \<and> startService_unix env_up running_manager
        \<lparr>clock = 0, trace = [E_fetch 11434 default_endpoint]\<rparr>
     = Some (Inr (),
             \<lparr>config = cfg0,
              status = \<lparr>running = True, state = S_running, pid = None, lastError = None\<rparr>\<rparr>,
             \<lparr>clock = 0, trace = [E_fetch 11434 default_endpoint,
                                   E_fetch 11434 default_endpoint]\<rparr>)
   \<and> startService_windows env_up running_manager w0
     = Some (Inr (),
             \<lparr>config = cfg0,
              status = \<lparr>running = True, state = S_running, pid = None, lastError = None\<rparr>\<rparr>,
             \<lparr>clock = 0, trace = [E_fetch 11434 default_endpoint]\<rparr>)
   \<and> startService_windows env_up running_manager
        \<lparr>clock = 0, trace = [E_fetch 11434 default_endpoint]\<rparr>
     = Some (Inr (),
             \<lparr>config = cfg0,
              status = \<lparr>running = True, state = S_running, pid = None, lastError = None\<rparr>\<rparr>,
             \<lparr>clock = 0, trace = [E_fetch 11434 default_endpoint,
                                   E_fetch 11434 default_endpoint]\<rparr>)"
  using startService_idempotent [of env_up running_manager w0 "Inr ()" running_manager
      "\<lparr>clock = 0, trace = [E_fetch 11434 default_endpoint]\<rparr>"]
  by (simp add: startService_healthy checkHealth_True after_fetch_def
      running_manager_def n_fetch_def w0_def)

text \<open>
  C5 (as stated: on every platform \<^verbatim>\<open>stopService()\<close> of a manager whose
  \<^verbatim>\<open>checkHealth()\<close> is false succeeds, ends \<open>stopped\<close> and invokes no process-control
  primitive). The Unix method never asks \<^verbatim>\<open>checkHealth()\<close>: with the probe failing, a
  process found by the lookup and a \<^verbatim>\<open>kill\<close> that fails, it runs both commands, raises
  a \<^verbatim>\<open>ProcessError\<close> and leaves the state \<open>stopping\<close>.
\<close>

theorem stopService_unix_not_gated_counterexample:
  "fst (checkHealth env_found (new_manager cfg0) w0) = Inr False
   \<and> stopService_unix env_found (new_manager cfg0) w0
     = (Inl (ProcessError ''Failed to stop process'' ''ollama'' Op_stop
               (SysError ''Command failed'')),
        \<lparr>config = cfg0,
         status = \<lparr>running = False, state = S_stopping, pid = None, lastError = None\<rparr>\<rparr>,
        \<lparr>clock = 0, trace = [E_exec (Pgrep ''ollama''), E_exec (Kill (Num 4242))]\<rparr>)"
  by (simp add: checkHealth_eq probe_answer_def stopService_unix_eq stopProcess_unix_eq
      lookup_unix_def env_found_def parseInt_def trim_def is_space_def is_digit_def
      digits_val_def digit_val_def Let_def new_manager_def initial_status_def after_exec_def
      w0_def)

text \<open>
  C5 (amended). On Windows, for every manager whose \<^verbatim>\<open>checkHealth()\<close> returns false,
  \<^verbatim>\<open>stopService()\<close> returns successfully, sets the state to \<open>stopped\<close> and performs
  nothing but that probe. On Unix \<^verbatim>\<open>stopService()\<close> does not consult
  \<^verbatim>\<open>checkHealth()\<close>: its first interaction is always the process lookup, and when the
  lookup finds no process it returns successfully with the state \<open>stopped\<close> and sends
  no signal.
\<close>

theorem stopService_when_down:
  "(fst (checkHealth e m w) = Inr False \<longrightarrow>
      (\<exists>w'. stopService_windows e m w
               = (Inr (), m\<lparr>status := (status m)\<lparr>running := False, state := S_stopped\<rparr>\<rparr>, w')
            \<and> trace w' = trace w @ [E_fetch (port (config m)) default_endpoint]))
   \<and> (fst (findProcess_unix e ''ollama'' w) = Inr None \<longrightarrow>
      (\<exists>w'. stopService_unix e m w
               = (Inr (), m\<lparr>status := (status m)\<lparr>running := False, state := S_stopped\<rparr>\<rparr>, w')
            \<and> trace w' = trace w @ [E_exec (Pgrep ''ollama'')]))
   \<and> (\<exists>r m' w' evs. stopService_unix e m w = (r, m', w')
          \<and> trace w' = trace w @ E_exec (Pgrep ''ollama'') # evs \<and> n_fetch w' = n_fetch w)"
proof -
  have a: "fst (checkHealth e m w) = Inr False \<longrightarrow>
      (\<exists>w'. stopService_windows e m w
               = (Inr (), m\<lparr>status := (status m)\<lparr>running := False, state := S_stopped\<rparr>\<rparr>, w')
            \<and> trace w' = trace w @ [E_fetch (port (config m)) default_endpoint])"
    by (simp add: checkHealth_False stopService_windows_eq Let_def)
  have b: "fst (findProcess_unix e ''ollama'' w) = Inr None \<longrightarrow>
      (\<exists>w'. stopService_unix e m w
               = (Inr (), m\<lparr>status := (status m)\<lparr>running := False, state := S_stopped\<rparr>\<rparr>, w')
            \<and> trace w' = trace w @ [E_exec (Pgrep ''ollama'')])"
    by (simp add: findProcess_unix_result stopService_unix_eq stopProcess_unix_eq)
  have c: "\<exists>r m' w' evs. stopService_unix e m w = (r, m', w')
          \<and> trace w' = trace w @ E_exec (Pgrep ''ollama'') # evs \<and> n_fetch w' = n_fetch w"
    by (simp add: stopService_unix_eq stopProcess_unix_eq
        split: option.split exec_outcome.split)
  from a b c show ?thesis by (intro conjI)
qed

theorem stopService_when_down_witness:
  "stopService_windows env_down (new_manager cfg0) w0
     = (Inr (), new_manager cfg0, \<lparr>clock = 0, trace = [E_fetch 11434 default_endpoint]\<rparr>)
   \<and> stopService_unix env_down (new_manager cfg0) w0
     = (Inr (), new_manager cfg0, \<lparr>clock = 0, trace = [E_exec (Pgrep ''ollama'')]\<rparr>)"
  using stopService_when_down [of env_down "new_manager cfg0" w0]
  by (simp add: stopService_windows_eq stopService_unix_eq stopProcess_unix_eq lookup_unix_def
      new_manager_def initial_status_def after_fetch_def after_exec_def n_fetch_def w0_def
      Let_def)




text \<open>
  C7. Every \<^verbatim>\<open>getStatus()\<close> issues one fresh probe and returns the stored status with
  \<^verbatim>\<open>running\<close> and \<^verbatim>\<open>state\<close> set from that probe's answer; when the probe fails at
  the first of two consecutive calls and succeeds at the second, the second call reports
  \<open>running\<close> with no start in between.
\<close>

theorem getStatus_fresh:
  "(\<exists>b st. fst (checkHealth e m w) = Inr b
       \<and> st = (status m)\<lparr>running := b, state := (if b then S_running else S_stopped)\<rparr>
       \<and> getStatus e m w = (Inr st, m\<lparr>status := st\<rparr>, snd (checkHealth e m w))
       \<and> trace (snd (checkHealth e m w)) = trace w @ [E_fetch (port (config m)) default_endpoint])
   \<and> (fst (checkHealth e m w) = Inr False \<and> getStatus e m w = (r1, m1, w1)
        \<and> fst (checkHealth e m1 w1) = Inr True \<longrightarrow>
       (\<exists>st1 st2 m2 w2. r1 = Inr st1 \<and> \<not> running st1 \<and> state st1 = S_stopped
          \<and> getStatus e m1 w1 = (Inr st2, m2, w2)
          \<and> running st2 \<and> state st2 = S_running
          \<and> trace w2 = trace w @ [E_fetch (port (config m)) default_endpoint,
                                   E_fetch (port (config m)) default_endpoint]))"
  by (auto simp: getStatus_eq checkHealth_eq Let_def)

theorem getStatus_fresh_witness:
  "getStatus env_comes_up (new_manager cfg0) w0
     = (Inr \<lparr>running = False, state = S_stopped, pid = None, lastError = None\<rparr>,
        new_manager cfg0, \<lparr>clock = 0, trace = [E_fetch 11434 default_endpoint]\<rparr>)
   \<and> getStatus env_comes_up (new_manager cfg0)
        \<lparr>clock = 0, trace = [E_fetch 11434 default_endpoint]\<rparr>
     = (Inr \<lparr>running = True, state = S_running, pid = None, lastError = None\<rparr>,
        \<lparr>config = cfg0,
         status = \<lparr>running = True, state = S_running, pid = None, lastError = None\<rparr>\<rparr>,
        \<lparr>clock = 0, trace = [E_fetch 11434 default_endpoint, E_fetch 11434 default_endpoint]\<rparr>)"
  using getStatus_fresh [of env_comes_up "new_manager cfg0" w0
      "Inr \<lparr>running = False, state = S_stopped, pid = None, lastError = None\<rparr>"
      "new_manager cfg0" "\<lparr>clock = 0, trace = [E_fetch 11434 default_endpoint]\<rparr>"]
  by (simp add: getStatus_eq checkHealth_eq probe_answer_def response_ok_def env_comes_up_def
      new_manager_def initial_status_def after_fetch_def n_fetch_def w0_def Let_def)

text \<open>
  C8. For every port and endpoint, \<^verbatim>\<open>check()\<close> returns \<open>true\<close> exactly when the
  request resolves with a status from 200 to 299, and never raises: a rejected request
  and any other status give \<open>false\<close>. One request is issued.
\<close>

theorem check_never_raises:
  "fst (check e p ep w)
     = Inr (\<exists>s. fetch_result e (n_fetch w) p ep = Resolved s \<and> 200 \<le> s \<and> s \<le> 299)
   \<and> (\<forall>err. fst (check e p ep w) \<noteq> Inl err)
   \<and> trace (snd (check e p ep w)) = trace w @ [E_fetch p ep]"
  by (cases "fetch_result e (n_fetch w) p ep")
     (simp_all add: check_eq probe_answer_def response_ok_def)

text \<open>
  C9 (as stated: \<^verbatim>\<open>running == true\<close> iff \<^verbatim>\<open>state == 'running'\<close> is preserved by every
  operation and every \<^verbatim>\<open>updateStatus\<close> merge). A fresh manager whose \<^verbatim>\<open>getStatus()\<close>
  has seen the service healthy holds \<open>running = true\<close>, \<open>state = running\<close>; the
  merge of \<^verbatim>\<open>{ state: 'stopping' }\<close> in \<^verbatim>\<open>stopService\<close> changes the state alone, and
  when the \<^verbatim>\<open>kill\<close> then fails the manager is left with \<open>running = true\<close> and
  \<open>state = stopping\<close>.
\<close>

theorem status_invariant_counterexample:
  "getStatus env_unkillable (new_manager cfg0) w0
     = (Inr \<lparr>running = True, state = S_running, pid = None, lastError = None\<rparr>,
        running_manager, \<lparr>clock = 0, trace = [E_fetch 11434 default_endpoint]\<rparr>)
   \<and> status_iff (status running_manager)
   \<and> stopService_unix env_unkillable running_manager
        \<lparr>clock = 0, trace = [E_fetch 11434 default_endpoint]\<rparr>
     = (Inl (ProcessError ''Failed to stop process'' ''ollama'' Op_stop
               (SysError ''Command failed'')),
        \<lparr>config = cfg0,
         status = \<lparr>running = True, state = S_stopping, pid = None, lastError = None\<rparr>\<rparr>,
        \<lparr>clock = 0,
         trace = [E_fetch 11434 default_endpoint, E_exec (Pgrep ''ollama''),
                  E_exec (Kill (Num 4242))]\<rparr>)
   \<and> \<not> status_iff \<lparr>running = True, state = S_stopping, pid = None, lastError = None\<rparr>
   \<and> merge_status \<lparr>running = True, state = S_running, pid = None, lastError = None\<rparr>
        (set_state S_stopping)
     = \<lparr>running = True, state = S_stopping, pid = None, lastError = None\<rparr>"
  by (simp add: stop_running_unkillable status_iff_def)
     (simp add: getStatus_eq probe_answer_def response_ok_def env_unkillable_def Let_def
        new_manager_def initial_status_def running_manager_def after_fetch_def n_fetch_def w0_def)

text \<open>
  C9 (amended). \<^verbatim>\<open>running == true\<close> iff \<^verbatim>\<open>state == 'running'\<close> holds in the initial
  status and after every \<^verbatim>\<open>getStatus()\<close>; in every reachable status it holds unless the
  state is \<open>starting\<close> or \<open>stopping\<close>, where a stale \<open>running = true\<close> may remain.
  This weaker invariant is kept by the three merges the managers perform, by
  \<^verbatim>\<open>waitForHealth\<close>, and by \<^verbatim>\<open>startService\<close> and \<^verbatim>\<open>stopService\<close> on both
  platforms (\<^verbatim>\<open>checkHealth\<close> returns the probe's answer and stores nothing).
\<close>

theorem status_invariant:
  "status_iff initial_status
   \<and> (\<forall>st m' w'. getStatus e m w = (Inr st, m', w') \<longrightarrow> status_iff (status m') \<and> status_iff st)
   \<and> status_inv (merge_status st0 (set_state S_starting))
   \<and> status_inv (merge_status st0 (set_state S_stopping))
   \<and> status_inv (merge_status st0 set_stopped)
   \<and> (\<forall>r m' w'. status_inv (status m) \<and> mgr_waitForHealth e chk m w = Some (r, m', w') \<longrightarrow>
         status_inv (status m'))
   \<and> (\<forall>r m' w'. status_inv (status m) \<and> startService_unix e m w = Some (r, m', w') \<longrightarrow>
         status_inv (status m'))
   \<and> (\<forall>r m' w'. status_inv (status m) \<and> startService_windows e m w = Some (r, m', w') \<longrightarrow>
         status_inv (status m'))
   \<and> (\<forall>r m' w'. status_inv (status m) \<and> stopService_unix e m w = (r, m', w') \<longrightarrow>
         status_inv (status m'))
   \<and> (\<forall>r m' w'. status_inv (status m) \<and> stopService_windows e m w = (r, m', w') \<longrightarrow>
         status_inv (status m'))"
proof -
  have c1: "status_iff initial_status"
    by (simp add: status_iff_def initial_status_def)
  have c2: "\<forall>st m' w'. getStatus e m w = (Inr st, m', w') \<longrightarrow>
              status_iff (status m') \<and> status_iff st"
    by (auto simp: getStatus_refreshed)
  have c3: "status_inv (merge_status st0 (set_state S_starting))" by simp
  have c4: "status_inv (merge_status st0 (set_state S_stopping))" by simp
  have c5: "status_inv (merge_status st0 set_stopped)" by simp
  have c6: "\<forall>r m' w'. status_inv (status m) \<and> mgr_waitForHealth e chk m w = Some (r, m', w') \<longrightarrow>
         status_inv (status m')"
    using mgr_wait_status [of e chk m w] by auto
  have c7: "\<forall>r m' w'. status_inv (status m) \<and> startService_unix e m w = Some (r, m', w') \<longrightarrow>
         status_inv (status m')"
    using startService_unix_status [of e m w] by auto
  have c8: "\<forall>r m' w'. status_inv (status m) \<and> startService_windows e m w = Some (r, m', w') \<longrightarrow>
         status_inv (status m')"
    using startService_windows_status [of e m w] by auto
  have c9: "\<forall>r m' w'. status_inv (status m) \<and> stopService_unix e m w = (r, m', w') \<longrightarrow>
         status_inv (status m')"
    using stopService_unix_status [of e m w] by auto
  have c10: "\<forall>r m' w'. status_inv (status m) \<and> stopService_windows e m w = (r, m', w') \<longrightarrow>
         status_inv (status m')"
    using stopService_windows_status [of e m w] by auto
  from c1 c2 c3 c4 c5 c6 c7 c8 c9 c10 show ?thesis by (intro conjI)
qed

theorem status_invariant_witness:
  "status_inv (status running_manager)
   \<and> status_inv \<lparr>running = True, state = S_stopping, pid = None, lastError = None\<rparr>
   \<and> status_iff \<lparr>running = True, state = S_running, pid = None, lastError = None\<rparr>
   \<and> status_inv \<lparr>running = False, state = S_starting, pid = None, lastError = None\<rparr>
   \<and> status_inv \<lparr>running = False, state = S_stopped, pid = None, lastError = None\<rparr>"
proof -
  let ?w1 = "\<lparr>clock = 0, trace = [E_fetch 11434 default_endpoint]\<rparr>"
  have i: "status_inv (status running_manager)"
    by (simp add: status_inv_def status_iff_def running_manager_def)
  have i0: "status_inv (status (new_manager cfg0))"
    by (simp add: status_inv_def status_iff_def new_manager_def initial_status_def)
  have g: "getStatus env_unkillable (new_manager cfg0) w0
     = (Inr \<lparr>running = True, state = S_running, pid = None, lastError = None\<rparr>,
        running_manager, ?w1)"
    by (simp add: getStatus_eq probe_answer_def response_ok_def env_unkillable_def Let_def
        new_manager_def initial_status_def running_manager_def after_fetch_def n_fetch_def w0_def)
  have a: "status_inv \<lparr>running = True, state = S_stopping, pid = None, lastError = None\<rparr>"
    using status_invariant [of env_unkillable running_manager ?w1] i stop_running_unkillable
    by simp
  have b: "status_iff \<lparr>running = True, state = S_running, pid = None, lastError = None\<rparr>"
    using status_invariant [of env_unkillable "new_manager cfg0" w0] g by simp
  have c: "status_inv \<lparr>running = False, state = S_starting, pid = None, lastError = None\<rparr>"
    using status_invariant [of env_found "new_manager cfg0" w0] i0
      start_found_unix start_found_windows
    by simp
  have d: "status_inv \<lparr>running = False, state = S_stopped, pid = None, lastError = None\<rparr>"
    using status_invariant [of env_down "new_manager cfg0" w0] i0
      stopService_windows_eq [of env_down "new_manager cfg0" w0]
    by (simp add: Let_def new_manager_def initial_status_def)
  have e: "status_inv (status running_manager)"
    using status_invariant [of env_up running_manager w0 _ "createHealthChecker env_up 11434"]
      i wait_up
    by simp
  from e a b c d show ?thesis by simp
qed

text \<open>
  C10 (as stated: lookup output that does not parse to a nonzero numeric pid yields
  \<^verbatim>\<open>null\<close>, on either platform). On Windows the test is on the matched text, not on the
  number: the row of the idle process, whose pid field is \<^verbatim>\<open>"0"\<close>, gives a
  \<^verbatim>\<open>ProcessInfo\<close> with pid 0, and \<^verbatim>\<open>isProcessRunning\<close> answers \<open>true\<close>.
\<close>

theorem findProcess_windows_pid0_counterexample:
  "findProcess_windows env_idle ''System Idle Process'' w0
     = (Inr (Some \<lparr>proc_pid = Num 0, proc_name = ''System Idle Process''\<rparr>),
        \<lparr>clock = 0, trace = [E_exec (Tasklist ''System Idle Process'')]\<rparr>)
   \<and> isProcessRunning_windows env_idle ''System Idle Process'' w0
     = (Inr True, \<lparr>clock = 0, trace = [E_exec (Tasklist ''System Idle Process'')]\<rparr>)"
  by (simp add: findProcess_windows_eq isProcessRunning_windows_eq lookup_windows_def
      env_idle_def idle_row_def regexp_match_def simple_name_def regexp_special_def
      match_here_def pat_char_def dq_def is_digit_def parseInt_def is_space_def digits_val_def digit_val_def
      after_exec_def w0_def Let_def)

text \<open>
  C10 (amended). \<^verbatim>\<open>findProcess\<close> never raises on either platform and returns a
  \<^verbatim>\<open>ProcessInfo\<close> or \<^verbatim>\<open>null\<close>, and so \<^verbatim>\<open>isProcessRunning\<close> never raises. On
  Unix the result is \<^verbatim>\<open>null\<close> exactly when the lookup command fails or its output does
  not parse to a nonzero pid. On Windows a failing lookup command, or (for a name without
  pattern character but the dot) an output with no field of the form \<^verbatim>\<open>"name","digits"\<close>, gives
  \<^verbatim>\<open>null\<close>; a matched field is returned with the number its digits denote, also when
  that number is 0.
\<close>

theorem findProcess_total:
  "(\<exists>r. fst (findProcess_unix e name w) = Inr r
       \<and> (r = None) = (exec_result e (n_exec w) (Pgrep name) = Exec_failed
                        \<or> (\<exists>out. exec_result e (n_exec w) (Pgrep name) = Exec_ok out
                              \<and> \<not> (\<exists>n. n \<noteq> 0 \<and> parseInt (trim out) = Num n)))
       \<and> (\<forall>p. r = Some p \<longrightarrow> proc_name p = name \<and> (\<exists>n. n \<noteq> 0 \<and> proc_pid p = Num n)))
   \<and> (\<exists>r. fst (findProcess_windows e name w) = Inr r
       \<and> (exec_result e (n_exec w) (Tasklist name) = Exec_failed \<longrightarrow> r = None)
       \<and> (\<forall>out. exec_result e (n_exec w) (Tasklist name) = Exec_ok out \<and> simple_name name \<longrightarrow>
             (field_search ([dq] @ name @ [dq, CHR '','', dq]) out = Re_no_match \<longrightarrow> r = None)
           \<and> (\<forall>g. field_search ([dq] @ name @ [dq, CHR '','', dq]) out = Re_match g \<longrightarrow>
                  r = Some \<lparr>proc_pid = Num (int (digits_val g)), proc_name = name\<rparr>)))
   \<and> (\<exists>b. fst (isProcessRunning_unix e name w) = Inr b)
   \<and> (\<exists>b. fst (isProcessRunning_windows e name w) = Inr b)"
proof (intro conjI)
  show "\<exists>r. fst (findProcess_unix e name w) = Inr r
       \<and> (r = None) = (exec_result e (n_exec w) (Pgrep name) = Exec_failed
                        \<or> (\<exists>out. exec_result e (n_exec w) (Pgrep name) = Exec_ok out
                              \<and> \<not> (\<exists>n. n \<noteq> 0 \<and> parseInt (trim out) = Num n)))
       \<and> (\<forall>p. r = Some p \<longrightarrow> proc_name p = name \<and> (\<exists>n. n \<noteq> 0 \<and> proc_pid p = Num n))"
    by (cases "exec_result e (n_exec w) (Pgrep name)")
       (auto simp: findProcess_unix_eq lookup_unix_def truthy_parseInt)
  show "\<exists>r. fst (findProcess_windows e name w) = Inr r
       \<and> (exec_result e (n_exec w) (Tasklist name) = Exec_failed \<longrightarrow> r = None)
       \<and> (\<forall>out. exec_result e (n_exec w) (Tasklist name) = Exec_ok out \<and> simple_name name \<longrightarrow>
             (field_search ([dq] @ name @ [dq, CHR '','', dq]) out = Re_no_match \<longrightarrow> r = None)
           \<and> (\<forall>g. field_search ([dq] @ name @ [dq, CHR '','', dq]) out = Re_match g \<longrightarrow>
                  r = Some \<lparr>proc_pid = Num (int (digits_val g)), proc_name = name\<rparr>))"
    by (cases "exec_result e (n_exec w) (Tasklist name)")
       (auto simp: findProcess_windows_eq lookup_windows_def regexp_match_def
          dest!: field_search_digits simp: parseInt_digits)
  show "\<exists>b. fst (isProcessRunning_unix e name w) = Inr b"
    by (simp add: isProcessRunning_unix_eq)
  show "\<exists>b. fst (isProcessRunning_windows e name w) = Inr b"
    by (simp add: isProcessRunning_windows_eq)
qed

theorem findProcess_total_witness:
  "fst (findProcess_unix env_found ''ollama'' w0)
     = Inr (Some \<lparr>proc_pid = Num 4242, proc_name = ''ollama''\<rparr>)
   \<and> fst (findProcess_unix env_down ''ollama'' w0) = Inr None
   \<and> fst (findProcess_windows env_found ''ollama.exe'' w0)
     = Inr (Some \<lparr>proc_pid = Num 4242, proc_name = ''ollama.exe''\<rparr>)
   \<and> fst (findProcess_windows env_down ''ollama.exe'' w0) = Inr None"
  using findProcess_total [of env_found "''ollama''" w0]
    findProcess_total [of env_down "''ollama''" w0]
    findProcess_total [of env_found "''ollama.exe''" w0]
    findProcess_total [of env_down "''ollama.exe''" w0]
  by (simp add: findProcess_unix_eq findProcess_windows_eq lookup_unix_def lookup_windows_def
      env_found_def found_row_def regexp_match_def simple_name_def regexp_special_def
      match_here_def pat_char_def dq_def is_digit_def parseInt_def trim_def is_space_def digits_val_def
      digit_val_def Let_def)

end
